theory Spec2Isabelle
  imports Main "HOL-Library.Product_Lexorder"
begin

section \<open>Data model (main/models.py)\<close>

text \<open>
  A \<open>datetime.date\<close> is compared as the triple (year, month, day); the lexicographic
  order on triples is the order Python uses for \<open>d > date.today()\<close>.
  A UUID primary key is an opaque value; \<open>uuid4()\<close> is an input of the model.
\<close>

type_synonym date = "nat \<times> nat \<times> nat"
type_synonym uuid = nat

text \<open>
  \<open>request.user\<close> is either Django's \<open>AnonymousUser\<close> or a row of the User table
  (primary key, username, staff flag).
\<close>

datatype request_user = AnonymousUser | User (pk: nat) (username: string) (staff: bool)

fun is_authenticated :: "request_user \<Rightarrow> bool" where
  "is_authenticated AnonymousUser = False"
| "is_authenticated (User _ _ _) = True"

fun is_staff :: "request_user \<Rightarrow> bool" where
  "is_staff AnonymousUser = False"
| "is_staff (User _ _ s) = s"

text \<open>
  \<open>request.user == obj.user\<close>, where \<open>obj.user\<close> is the User row whose primary key the
  foreign key column stores: model instances are equal when their primary keys are, and
  \<open>AnonymousUser\<close> equals no User row.
\<close>

fun user_eq :: "request_user \<Rightarrow> nat \<Rightarrow> bool" where
  "user_eq AnonymousUser _ = False"
| "user_eq (User p _ _) owner_pk = (p = owner_pk)"

record course =
  course_id :: uuid
  course_user :: nat
  title :: string
  description :: string

record student =
  student_id :: uuid
  student_user :: nat
  first_name :: string
  last_name :: string
  date_of_receipt :: date

record course_to_student =
  cts_id :: uuid
  cts_course :: uuid
  cts_student :: uuid

record review =
  review_id :: uuid
  review_course :: uuid
  review_student :: uuid
  review_text :: "string option"
  grade :: int

record db =
  Course_objects :: "course list"
  Student_objects :: "student list"
  CourseToStudent_objects :: "course_to_student list"
  Review_objects :: "review list"

datatype exn =
  DoesNotExist | MultipleObjectsReturned | TypeError | ValueError
  | AttributeError | IntegrityError | ValidationError | Http404

text \<open>
  The environment of one request: \<open>date.today()\<close>, the value the next \<open>uuid4()\<close> call
  returns, and the library functions the handlers, the form and the serializers rely on:
  \<^item> \<open>strptime\<close>: \<open>datetime.strptime(s, '%Y-%m-%d').date()\<close>;
  \<^item> \<open>parse_int\<close>: the conversion of a form \<open>IntegerField\<close>;
  \<^item> \<open>form_char_field\<close>, \<open>serializer_char_field\<close>: the conversion of a submitted text by
    a form (serializer) \<open>CharField\<close>: whitespace stripping and the prohibited characters;
  \<^item> \<open>parse_date\<close>: the conversion of a serializer \<open>DateField\<close>;
  \<^item> \<open>integer_field_range\<close>: the integer range of the database backend, which every model
    \<open>IntegerField\<close> validates against.
  \<open>None\<close> from a conversion stands for the exception it raises.
\<close>

record env =
  today :: date
  uuid4 :: uuid
  strptime :: "string \<Rightarrow> date option"
  parse_int :: "string \<Rightarrow> int option"
  form_char_field :: "string \<Rightarrow> string option"
  serializer_char_field :: "string \<Rightarrow> string option"
  parse_date :: "string \<Rightarrow> date option"
  integer_field_range :: "int \<times> int"

subsection \<open>Validators\<close>

text \<open>\<open>validate_future_date\<close>: raises when the date is after today.\<close>

definition validate_future_date :: "env \<Rightarrow> date \<Rightarrow> exn + unit" where
  "validate_future_date e date_value =
     (if date_value > today e then Inl ValidationError else Inr ())"

text \<open>
  The validators declared on \<open>Student.date_of_receipt\<close>
  (\<open>models.DateField(validators=[validate_future_date])\<close>), and the field's part of the
  model validation of a Student (\<open>full_clean\<close> cleans each field with the field's
  validators): a validator that fails makes the validation raise.
\<close>

definition date_of_receipt_validators :: "(env \<Rightarrow> date \<Rightarrow> exn + unit) list" where
  "date_of_receipt_validators = [validate_future_date]"

fun run_validators :: "('e \<Rightarrow> 'a \<Rightarrow> exn + unit) list \<Rightarrow> 'e \<Rightarrow> 'a \<Rightarrow> exn + unit" where
  "run_validators [] e v = Inr ()"
| "run_validators (f # fs) e v =
     (case f e v of Inl x \<Rightarrow> Inl x | Inr _ \<Rightarrow> run_validators fs e v)"

definition Student_date_of_receipt_clean :: "env \<Rightarrow> student \<Rightarrow> exn + unit" where
  "Student_date_of_receipt_clean e s =
     run_validators date_of_receipt_validators e (date_of_receipt s)"


section \<open>Requests, responses and the object manager\<close>

record request =
  req_method :: string
  user :: request_user
  POST :: "string \<rightharpoonup> string"

text \<open>
  The value a handler puts under the key \<open>error\<close> of the template context. The source's
  messages are Russian sentences; each constructor names one of them:
  \<^item> \<open>ErrStudentExists\<close>: "you have already created a student";
  \<^item> \<open>ErrFutureDate\<close>: "the date of receipt cannot be in the future";
  \<^item> \<open>ErrEditOwnStudent\<close>, \<open>ErrDeleteOwnStudent\<close>, \<open>ErrEditOwnCourse\<close>,
    \<open>ErrDeleteOwnCourse\<close>, \<open>ErrEditOwnReview\<close>, \<open>ErrDeleteOwnReview\<close>:
    "you can edit (delete) only your own student (course, review)";
  \<^item> \<open>ErrNotAStudent\<close>: "you must be registered as a student to enroll";
  \<^item> \<open>ErrAlreadyEnrolled\<close>: "you are already enrolled in this course";
  \<^item> \<open>ErrAlreadyLeft\<close>: "you have already left this course".
\<close>

datatype error_message =
  ErrStudentExists | ErrFutureDate
  | ErrEditOwnStudent | ErrDeleteOwnStudent
  | ErrEditOwnCourse | ErrDeleteOwnCourse
  | ErrEditOwnReview | ErrDeleteOwnReview
  | ErrNotAStudent | ErrAlreadyEnrolled | ErrAlreadyLeft

text \<open>
  \<open>render(request, template, context)\<close> keeps the template name and the context's
  \<open>error\<close> entry (\<open>None\<close> when the context has none); \<open>redirect(name)\<close> keeps the
  route name; \<open>login_required\<close> redirects to its \<open>login_url\<close> (\<open>None\<close>: the
  project-wide setting).
\<close>

datatype response =
  Render string "error_message option"
  | Redirect string
  | RedirectToLogin "string option"

fun status_code :: "response \<Rightarrow> nat" where
  "status_code (Render _ _) = 200"
| "status_code (Redirect _) = 302"
| "status_code (RedirectToLogin _) = 302"

text \<open>
  A handler returns its response and the database after the request, or the exception it
  leaves unhandled (\<open>Http404\<close> becomes a 404 response, any other a server error); no
  handler writes before it raises, so the database is then the one before the request.
\<close>

type_synonym result = "exn + response \<times> db"

text \<open>\<open>Model.objects.get(...)\<close> on the rows that match the lookup.\<close>

fun get_one :: "'a list \<Rightarrow> exn + 'a" where
  "get_one [] = Inl DoesNotExist"
| "get_one [x] = Inr x"
| "get_one (x # y # _) = Inl MultipleObjectsReturned"

text \<open>\<open>get_object_or_404\<close>: \<open>DoesNotExist\<close> becomes \<open>Http404\<close>.\<close>

definition get_object_or_404 :: "'a list \<Rightarrow> exn + 'a" where
  "get_object_or_404 rows =
     (case get_one rows of Inl DoesNotExist \<Rightarrow> Inl Http404 | other \<Rightarrow> other)"

text \<open>
  \<open>Student.objects.filter(user=request.user)\<close>: the lookup value must be a User row;
  \<open>AnonymousUser\<close> is not one and the query raises \<open>TypeError\<close> when it is built.
\<close>

fun Student_filter_user :: "db \<Rightarrow> request_user \<Rightarrow> exn + student list" where
  "Student_filter_user d AnonymousUser = Inl TypeError"
| "Student_filter_user d (User p _ _) =
     Inr (filter (\<lambda>s. student_user s = p) (Student_objects d))"

definition Student_get_user :: "db \<Rightarrow> request_user \<Rightarrow> exn + student" where
  "Student_get_user d u =
     (case Student_filter_user d u of Inl x \<Rightarrow> Inl x | Inr rows \<Rightarrow> get_one rows)"

definition Student_get_id :: "db \<Rightarrow> uuid \<Rightarrow> exn + student" where
  "Student_get_id d i = get_one (filter (\<lambda>s. student_id s = i) (Student_objects d))"

definition Course_get_id :: "db \<Rightarrow> uuid \<Rightarrow> exn + course" where
  "Course_get_id d i = get_one (filter (\<lambda>c. course_id c = i) (Course_objects d))"

definition Review_rows_id :: "db \<Rightarrow> uuid \<Rightarrow> review list" where
  "Review_rows_id d i = filter (\<lambda>r. review_id r = i) (Review_objects d)"

definition CourseToStudent_filter :: "db \<Rightarrow> student \<Rightarrow> course \<Rightarrow> course_to_student list" where
  "CourseToStudent_filter d s c =
     filter (\<lambda>l. cts_student l = student_id s \<and> cts_course l = course_id c)
       (CourseToStudent_objects d)"

text \<open>
  \<open>student_obj.user = request.user\<close>: a foreign key attribute accepts a User row only;
  assigning \<open>AnonymousUser\<close> raises \<open>ValueError\<close>.
\<close>

fun assign_user :: "request_user \<Rightarrow> exn + nat" where
  "assign_user AnonymousUser = Inl ValueError"
| "assign_user (User p _ _) = Inr p"

text \<open>
  \<open>save()\<close> of a Student: the text columns are NOT NULL, so a \<open>None\<close> taken from
  \<open>request.POST.get\<close> makes the statement fail with \<open>IntegrityError\<close>. A row with the
  object's primary key is updated; otherwise the row is inserted. \<open>save()\<close> runs no
  validator.
\<close>

definition Student_save ::
  "db \<Rightarrow> uuid \<Rightarrow> nat \<Rightarrow> string option \<Rightarrow> string option \<Rightarrow> date \<Rightarrow> exn + db" where
  "Student_save d i owner_pk fn ln dt =
     (case (fn, ln) of
        (Some f, Some l) \<Rightarrow>
          (let row = \<lparr>student_id = i, student_user = owner_pk, first_name = f,
                      last_name = l, date_of_receipt = dt\<rparr>
           in if \<exists>s \<in> set (Student_objects d). student_id s = i
              then Inr (d\<lparr>Student_objects :=
                          map (\<lambda>s. if student_id s = i then row else s) (Student_objects d)\<rparr>)
              else Inr (d\<lparr>Student_objects := Student_objects d @ [row]\<rparr>))
      | _ \<Rightarrow> Inl IntegrityError)"

text \<open>\<open>delete()\<close> with the \<open>on_delete=CASCADE\<close> foreign keys of the dependent tables.\<close>

definition Student_delete :: "db \<Rightarrow> student \<Rightarrow> db" where
  "Student_delete d s =
     d\<lparr>Student_objects := filter (\<lambda>x. student_id x \<noteq> student_id s) (Student_objects d),
       CourseToStudent_objects :=
         filter (\<lambda>l. cts_student l \<noteq> student_id s) (CourseToStudent_objects d),
       Review_objects := filter (\<lambda>r. review_student r \<noteq> student_id s) (Review_objects d)\<rparr>"

definition Course_delete :: "db \<Rightarrow> course \<Rightarrow> db" where
  "Course_delete d c =
     d\<lparr>Course_objects := filter (\<lambda>x. course_id x \<noteq> course_id c) (Course_objects d),
       CourseToStudent_objects :=
         filter (\<lambda>l. cts_course l \<noteq> course_id c) (CourseToStudent_objects d),
       Review_objects := filter (\<lambda>r. review_course r \<noteq> course_id c) (Review_objects d)\<rparr>"

definition Review_delete :: "db \<Rightarrow> review \<Rightarrow> db" where
  "Review_delete d r =
     d\<lparr>Review_objects := filter (\<lambda>x. review_id x \<noteq> review_id r) (Review_objects d)\<rparr>"

text \<open>The decorator \<open>@login_required(login_url=...)\<close>.\<close>

definition login_required ::
  "string option \<Rightarrow> (request \<Rightarrow> db \<Rightarrow> result) \<Rightarrow> request \<Rightarrow> db \<Rightarrow> result" where
  "login_required login_url view r d =
     (if is_authenticated (user r) then view r d else Inr (RedirectToLogin login_url, d))"

section \<open>Page handlers for students (main/views.py)\<close>

definition create_student_view :: "env \<Rightarrow> request \<Rightarrow> db \<Rightarrow> result" where
  "create_student_view e r d =
     (if req_method r = ''POST'' then
        (case Student_filter_user d (user r) of
           Inl x \<Rightarrow> Inl x
         | Inr rows \<Rightarrow>
             if rows \<noteq> [] then Inr (Render ''create_student.html'' (Some ErrStudentExists), d)
             else
               (case POST r ''date_of_receipt'' of
                  None \<Rightarrow> Inl TypeError
                | Some date_of_receipt_str \<Rightarrow>
                    (case strptime e date_of_receipt_str of
                       None \<Rightarrow> Inl ValueError
                     | Some dt \<Rightarrow>
                         if dt > today e
                         then Inr (Render ''create_student.html'' (Some ErrFutureDate), d)
                         else
                           (case assign_user (user r) of
                              Inl x \<Rightarrow> Inl x
                            | Inr owner_pk \<Rightarrow>
                                (case Student_save d (uuid4 e) owner_pk
                                        (POST r ''first_name'') (POST r ''last_name'') dt of
                                   Inl x \<Rightarrow> Inl x
                                 | Inr d' \<Rightarrow> Inr (Redirect ''students'', d'))))))
      else Inr (Render ''create_student.html'' None, d))"

definition create_student :: "env \<Rightarrow> request \<Rightarrow> db \<Rightarrow> result" where
  "create_student e = login_required (Some ''login'') (create_student_view e)"

definition edit_student :: "env \<Rightarrow> request \<Rightarrow> uuid \<Rightarrow> db \<Rightarrow> result" where
  "edit_student e r sid d =
     (case Student_get_id d sid of
        Inl x \<Rightarrow> Inl x
      | Inr student_obj \<Rightarrow>
          if req_method r = ''POST'' then
            if user_eq (user r) (student_user student_obj) \<or> is_staff (user r) then
              (case POST r ''date_of_receipt'' of
                 None \<Rightarrow> Inl TypeError
               | Some date_of_receipt_str \<Rightarrow>
                   (case strptime e date_of_receipt_str of
                      None \<Rightarrow> Inl ValueError
                    | Some dt \<Rightarrow>
                        if dt > today e
                        then Inr (Render ''edit_student.html'' (Some ErrFutureDate), d)
                        else
                          (case Student_save d (student_id student_obj) (student_user student_obj)
                                  (POST r ''first_name'') (POST r ''last_name'') dt of
                             Inl x \<Rightarrow> Inl x
                           | Inr d' \<Rightarrow> Inr (Redirect ''students'', d'))))
            else Inr (Render ''edit_student.html'' (Some ErrEditOwnStudent), d)
          else if user_eq (user r) (student_user student_obj) \<or> is_staff (user r)
          then Inr (Render ''edit_student.html'' None, d)
          else Inr (Render ''edit_student.html'' (Some ErrEditOwnStudent), d))"

definition delete_student :: "request \<Rightarrow> uuid \<Rightarrow> db \<Rightarrow> result" where
  "delete_student r sid d =
     (case Student_get_id d sid of
        Inl x \<Rightarrow> Inl x
      | Inr student_obj \<Rightarrow>
          if user_eq (user r) (student_user student_obj) \<or> is_staff (user r)
          then Inr (Redirect ''students'', Student_delete d student_obj)
          else Inr (Render ''delete_student.html'' (Some ErrDeleteOwnStudent), d))"

section \<open>Page handlers for courses\<close>

text \<open>\<open>save()\<close> of a loaded Course: title and description are NOT NULL columns.\<close>

definition Course_save ::
  "db \<Rightarrow> uuid \<Rightarrow> nat \<Rightarrow> string option \<Rightarrow> string option \<Rightarrow> exn + db" where
  "Course_save d i owner_pk t ds =
     (case (t, ds) of
        (Some t', Some ds') \<Rightarrow>
          (let row = \<lparr>course_id = i, course_user = owner_pk, title = t', description = ds'\<rparr>
           in if \<exists>c \<in> set (Course_objects d). course_id c = i
              then Inr (d\<lparr>Course_objects :=
                          map (\<lambda>c. if course_id c = i then row else c) (Course_objects d)\<rparr>)
              else Inr (d\<lparr>Course_objects := Course_objects d @ [row]\<rparr>))
      | _ \<Rightarrow> Inl IntegrityError)"

definition edit_course :: "request \<Rightarrow> uuid \<Rightarrow> db \<Rightarrow> result" where
  "edit_course r cid d =
     (case Course_get_id d cid of
        Inl x \<Rightarrow> Inl x
      | Inr course_obj \<Rightarrow>
          if req_method r = ''POST'' then
            if user_eq (user r) (course_user course_obj) \<or> is_staff (user r) then
              (case Course_save d (course_id course_obj) (course_user course_obj)
                      (POST r ''title'') (POST r ''description'') of
                 Inl x \<Rightarrow> Inl x
               | Inr d' \<Rightarrow> Inr (Redirect ''courses'', d'))
            else Inr (Render ''edit_course.html'' (Some ErrEditOwnCourse), d)
          else Inr (Render ''edit_course.html'' None, d))"

definition delete_course :: "request \<Rightarrow> uuid \<Rightarrow> db \<Rightarrow> result" where
  "delete_course r cid d =
     (case Course_get_id d cid of
        Inl x \<Rightarrow> Inl x
      | Inr course_obj \<Rightarrow>
          if user_eq (user r) (course_user course_obj) \<or> is_staff (user r)
          then Inr (Redirect ''courses'', Course_delete d course_obj)
          else Inr (Render ''delete_course.html'' (Some ErrDeleteOwnCourse), d))"

section \<open>Reviews: the field, the form and the page handlers\<close>

text \<open>
  \<open>MinMaxIntegerField\<close> overrides one method of \<open>IntegerField\<close>, \<open>formfield\<close>, which
  passes \<open>min_value=1, max_value=5\<close> to the form field. It declares no validator, so the
  model-level validation of the field is that of \<open>IntegerField\<close>: the backend's range.
\<close>

definition MinMaxIntegerField_formfield :: "int \<times> int" where
  "MinMaxIntegerField_formfield = (1, 5)"

definition MinMaxIntegerField_validate :: "env \<Rightarrow> int \<Rightarrow> exn + unit" where
  "MinMaxIntegerField_validate e g =
     (if g < fst (integer_field_range e) \<or> snd (integer_field_range e) < g
      then Inl ValidationError else Inr ())"

text \<open>
  The grade's part of the model validation of a Review (\<open>full_clean\<close> cleans each field
  with the field's validators).
\<close>

definition Review_grade_clean :: "env \<Rightarrow> review \<Rightarrow> exn + unit" where
  "Review_grade_clean e r = MinMaxIntegerField_validate e (grade r)"

text \<open>
  \<open>Review.objects.create(...)\<close> and \<open>save()\<close> of a new Review: the row is inserted as
  given; no validator runs.
\<close>

definition Review_create ::
  "env \<Rightarrow> db \<Rightarrow> uuid \<Rightarrow> uuid \<Rightarrow> string option \<Rightarrow> int \<Rightarrow> db" where
  "Review_create e d course_pk student_pk txt g =
     d\<lparr>Review_objects := Review_objects d @
         [\<lparr>review_id = uuid4 e, review_course = course_pk, review_student = student_pk,
           review_text = txt, grade = g\<rparr>]\<rparr>"

text \<open>
  \<open>ReviewForm\<close> (\<open>fields = ['review_text', 'grade']\<close>). The grade input is required and
  bounded by the form field's \<open>min_value\<close> and \<open>max_value\<close>; the text is optional, at most
  100 characters (\<open>max_length=100\<close>). \<open>is_valid()\<close> then runs the model validation of
  these fields. The result is the cleaned pair, \<open>None\<close> when the form is invalid.
\<close>

definition grade_formfield_clean :: "env \<Rightarrow> string option \<Rightarrow> int option" where
  "grade_formfield_clean e v =
     (case v of
        None \<Rightarrow> None
      | Some s \<Rightarrow>
          if s = [] then None
          else (case parse_int e s of
                  None \<Rightarrow> None
                | Some g \<Rightarrow>
                    if g < fst MinMaxIntegerField_formfield then None
                    else if snd MinMaxIntegerField_formfield < g then None
                    else Some g))"

definition review_text_formfield_clean :: "env \<Rightarrow> string option \<Rightarrow> string option" where
  "review_text_formfield_clean e v =
     (case v of
        None \<Rightarrow> Some []
      | Some s \<Rightarrow>
          if s = [] then Some []
          else (case form_char_field e s of
                  None \<Rightarrow> None
                | Some t \<Rightarrow> if 100 < length t then None else Some t))"

definition ReviewForm_clean :: "env \<Rightarrow> (string \<rightharpoonup> string) \<Rightarrow> (string \<times> int) option" where
  "ReviewForm_clean e data =
     (case (review_text_formfield_clean e (data ''review_text''),
            grade_formfield_clean e (data ''grade'')) of
        (Some t, Some g) \<Rightarrow>
          (case MinMaxIntegerField_validate e g of Inl _ \<Rightarrow> None | Inr _ \<Rightarrow> Some (t, g))
      | _ \<Rightarrow> None)"

text \<open>\<open>review_obj.student.user\<close>: the owner of the Student row the review refers to.\<close>

definition Review_student_user :: "db \<Rightarrow> review \<Rightarrow> exn + nat" where
  "Review_student_user d rv =
     (case Student_get_id d (review_student rv) of
        Inl x \<Rightarrow> Inl x
      | Inr s \<Rightarrow> Inr (student_user s))"

text \<open>\<open>form.save()\<close> with \<open>instance=review_obj\<close>: the two form fields are written.\<close>

definition Review_update :: "db \<Rightarrow> review \<Rightarrow> string \<Rightarrow> int \<Rightarrow> db" where
  "Review_update d rv t g =
     d\<lparr>Review_objects :=
         map (\<lambda>x. if review_id x = review_id rv then rv\<lparr>review_text := Some t, grade := g\<rparr> else x)
           (Review_objects d)\<rparr>"

definition create_review :: "env \<Rightarrow> request \<Rightarrow> uuid \<Rightarrow> db \<Rightarrow> result" where
  "create_review e r cid d =
     (if \<not> is_authenticated (user r) then Inr (Redirect ''login'', d)
      else
        (case get_object_or_404 (filter (\<lambda>c. course_id c = cid) (Course_objects d)) of
           Inl x \<Rightarrow> Inl x
         | Inr course_obj \<Rightarrow>
             if is_authenticated (user r) \<and> req_method r = ''POST'' then
               (case ReviewForm_clean e (POST r) of
                  Some (t, g) \<Rightarrow>
                    (case Student_get_user d (user r) of
                       Inl x \<Rightarrow> Inl x
                     | Inr student_obj \<Rightarrow>
                         Inr (Redirect ''main'',
                              Review_create e d (course_id course_obj) (student_id student_obj)
                                (Some t) g))
                | None \<Rightarrow> Inr (Render ''create_review.html'' None, d))
             else Inr (Render ''create_review.html'' None, d)))"

definition edit_review :: "env \<Rightarrow> request \<Rightarrow> uuid \<Rightarrow> db \<Rightarrow> result" where
  "edit_review e r rid d =
     (case get_one (Review_rows_id d rid) of
        Inl x \<Rightarrow> Inl x
      | Inr review_obj \<Rightarrow>
          if req_method r = ''POST'' then
            (case Review_student_user d review_obj of
               Inl x \<Rightarrow> Inl x
             | Inr owner_pk \<Rightarrow>
                 if user_eq (user r) owner_pk \<or> is_staff (user r) then
                   (case ReviewForm_clean e (POST r) of
                      Some (t, g) \<Rightarrow> Inr (Redirect ''courses'', Review_update d review_obj t g)
                    | None \<Rightarrow> Inr (Render ''edit_review.html'' None, d))
                 else Inr (Render ''edit_review.html'' (Some ErrEditOwnReview), d))
          else Inr (Render ''edit_review.html'' None, d))"

definition delete_review :: "request \<Rightarrow> uuid \<Rightarrow> db \<Rightarrow> result" where
  "delete_review r rid d =
     (case get_object_or_404 (Review_rows_id d rid) of
        Inl x \<Rightarrow> Inl x
      | Inr review_obj \<Rightarrow>
          (case Review_student_user d review_obj of
             Inl x \<Rightarrow> Inl x
           | Inr owner_pk \<Rightarrow>
               if user_eq (user r) owner_pk \<or> is_staff (user r)
               then Inr (Redirect ''courses'', Review_delete d review_obj)
               else Inr (Render ''reviews.html'' (Some ErrDeleteOwnReview), d)))"

section \<open>Enrollment\<close>

text \<open>
  \<open>CourseToStudent.Meta\<close> declares \<open>unique_together = ('course', 'student')\<close>: the table
  carries a unique index on the pair, and an insert that repeats a stored pair fails with
  \<open>IntegrityError\<close>.
\<close>

definition unique_together :: "course_to_student list \<Rightarrow> bool" where
  "unique_together rows = distinct (map (\<lambda>l. (cts_course l, cts_student l)) rows)"

definition CourseToStudent_create :: "env \<Rightarrow> db \<Rightarrow> student \<Rightarrow> course \<Rightarrow> exn + db" where
  "CourseToStudent_create e d s c =
     (if (course_id c, student_id s) \<in>
           set (map (\<lambda>l. (cts_course l, cts_student l)) (CourseToStudent_objects d))
      then Inl IntegrityError
      else Inr (d\<lparr>CourseToStudent_objects := CourseToStudent_objects d @
                    [\<lparr>cts_id = uuid4 e, cts_course = course_id c, cts_student = student_id s\<rparr>]\<rparr>))"

definition CourseToStudent_delete :: "db \<Rightarrow> course_to_student \<Rightarrow> db" where
  "CourseToStudent_delete d l =
     d\<lparr>CourseToStudent_objects := filter (\<lambda>x. cts_id x \<noteq> cts_id l) (CourseToStudent_objects d)\<rparr>"

definition enroll_course_view :: "env \<Rightarrow> uuid \<Rightarrow> request \<Rightarrow> db \<Rightarrow> result" where
  "enroll_course_view e cid r d =
     (case Course_get_id d cid of
        Inl x \<Rightarrow> Inl x
      | Inr course_obj \<Rightarrow>
          (case Student_get_user d (user r) of
             Inl DoesNotExist \<Rightarrow> Inr (Render ''create_student.html'' (Some ErrNotAStudent), d)
           | Inl x \<Rightarrow> Inl x
           | Inr student_obj \<Rightarrow>
               if CourseToStudent_filter d student_obj course_obj \<noteq> []
               then Inr (Render ''courses.html'' (Some ErrAlreadyEnrolled), d)
               else
                 (case CourseToStudent_create e d student_obj course_obj of
                    Inl x \<Rightarrow> Inl x
                  | Inr d' \<Rightarrow> Inr (Redirect ''courses'', d'))))"

definition enroll_course :: "env \<Rightarrow> request \<Rightarrow> uuid \<Rightarrow> db \<Rightarrow> result" where
  "enroll_course e r cid = login_required None (enroll_course_view e cid) r"

definition unenroll_course :: "request \<Rightarrow> uuid \<Rightarrow> db \<Rightarrow> result" where
  "unenroll_course r cid d =
     (case Course_get_id d cid of
        Inl x \<Rightarrow> Inl x
      | Inr course_obj \<Rightarrow>
          (case Student_get_user d (user r) of
             Inl x \<Rightarrow> Inl x
           | Inr student_obj \<Rightarrow>
               (case get_one (CourseToStudent_filter d student_obj course_obj) of
                  Inl DoesNotExist \<Rightarrow> Inr (Render ''courses.html'' (Some ErrAlreadyLeft), d)
                | Inl x \<Rightarrow> Inl x
                | Inr course_to_student \<Rightarrow>
                    Inr (Redirect ''courses'', CourseToStudent_delete d course_to_student))))"

section \<open>REST layer\<close>

subsection \<open>UserAdminPermission\<close>

text \<open>
  The object a detail route hands to \<open>has_object_permission\<close>, and its attribute \<open>user\<close>:
  Course and Student inherit the field from \<open>UserMixin\<close>; Review and CourseToStudent
  inherit \<open>UUIDMixin\<close> only, so reading \<open>target_object.user\<close> raises \<open>AttributeError\<close>.
\<close>

datatype target_object =
  CourseObj course | StudentObj student | ReviewObj review | CourseToStudentObj course_to_student

fun target_user :: "target_object \<Rightarrow> exn + nat" where
  "target_user (CourseObj c) = Inr (course_user c)"
| "target_user (StudentObj s) = Inr (student_user s)"
| "target_user (ReviewObj _) = Inl AttributeError"
| "target_user (CourseToStudentObj _) = Inl AttributeError"

definition safe_methods :: "string list" where
  "safe_methods = [''GET'', ''HEAD'', ''OPTIONS'']"

definition has_permission :: "request \<Rightarrow> bool" where
  "has_permission r = is_authenticated (user r)"

text \<open>\<open>a or b\<close> evaluates \<open>b\<close> only when \<open>a\<close> is false.\<close>

definition has_object_permission :: "request \<Rightarrow> target_object \<Rightarrow> exn + bool" where
  "has_object_permission r target =
     (if req_method r \<in> set safe_methods then Inr True
      else if is_staff (user r) then Inr True
      else (case target_user target of
              Inl x \<Rightarrow> Inl x
            | Inr owner_pk \<Rightarrow> Inr (user_eq (user r) owner_pk)))"

text \<open>
  What a view set does with the permission class before a detail action (retrieve,
  update, partial update, destroy) runs: a request without permission is answered 401 or
  403 (by the authentication scheme in use), a denied object permission of an
  authenticated user is answered 403, and an exception of the permission class is a
  server error.
\<close>

datatype access = Allowed | NotAuthenticated_401_or_403 | PermissionDenied_403

definition check_detail_access :: "request \<Rightarrow> target_object \<Rightarrow> exn + access" where
  "check_detail_access r target =
     (if \<not> has_permission r then Inr NotAuthenticated_401_or_403
      else (case has_object_permission r target of
              Inl x \<Rightarrow> Inl x
            | Inr ok \<Rightarrow> Inr (if ok then Allowed else PermissionDenied_403)))"

subsection \<open>Serializers and create\<close>

text \<open>
  A value of \<open>validated_data\<close> or of the keyword arguments of \<open>serializer.save\<close>.
\<close>

datatype pyval = Str string | DateVal date | UserVal request_user

text \<open>
  The fields of \<open>CourseSerializer\<close> and \<open>StudentSerializer\<close> (\<open>fields = '__all__'\<close>) with
  their read-only flag: \<open>id\<close> is not editable, \<open>user\<close> is declared
  \<open>ReadOnlyField(source='user.username')\<close>, and the many-to-many field goes through the
  join model. Only writable fields are read from the payload.
\<close>

definition CourseSerializer_fields :: "(string \<times> bool) list" where
  "CourseSerializer_fields =
     [(''id'', True), (''user'', True), (''title'', False), (''description'', False),
      (''students'', True)]"

definition StudentSerializer_fields :: "(string \<times> bool) list" where
  "StudentSerializer_fields =
     [(''id'', True), (''user'', True), (''first_name'', False), (''last_name'', False),
      (''date_of_receipt'', False), (''courses'', True)]"

definition writable_fields :: "(string \<times> bool) list \<Rightarrow> string list" where
  "writable_fields declared = map fst (filter (\<lambda>(name, read_only). \<not> read_only) declared)"

text \<open>A required, non-blank text field of a serializer.\<close>

definition serializer_text :: "env \<Rightarrow> string option \<Rightarrow> pyval option" where
  "serializer_text e v =
     (case v of
        None \<Rightarrow> None
      | Some s \<Rightarrow>
          (case serializer_char_field e s of
             None \<Rightarrow> None
           | Some t \<Rightarrow> if t = [] then None else Some (Str t)))"

text \<open>The date field of \<open>StudentSerializer\<close>, with the model field's validators.\<close>

definition serializer_date_of_receipt :: "env \<Rightarrow> string option \<Rightarrow> pyval option" where
  "serializer_date_of_receipt e v =
     (case v of
        None \<Rightarrow> None
      | Some s \<Rightarrow>
          (case parse_date e s of
             None \<Rightarrow> None
           | Some dt \<Rightarrow>
               (case run_validators date_of_receipt_validators e dt of
                  Inl _ \<Rightarrow> None
                | Inr _ \<Rightarrow> Some (DateVal dt))))"

definition serializer_field :: "env \<Rightarrow> string \<Rightarrow> string option \<Rightarrow> pyval option" where
  "serializer_field e name v =
     (if name = ''date_of_receipt'' then serializer_date_of_receipt e v
      else serializer_text e v)"

text \<open>
  \<open>is_valid\<close>: every writable field is read from the payload and validated;
  \<open>validated_data\<close> maps each to its value, \<open>None\<close> when a field fails (answered 400).
\<close>

fun validate_fields ::
  "env \<Rightarrow> string list \<Rightarrow> (string \<rightharpoonup> string) \<Rightarrow> (string \<rightharpoonup> pyval) option" where
  "validate_fields e [] data = Some Map.empty"
| "validate_fields e (name # names) data =
     (case serializer_field e name (data name) of
        None \<Rightarrow> None
      | Some v \<Rightarrow>
          (case validate_fields e names data of
             None \<Rightarrow> None
           | Some m \<Rightarrow> Some (m(name \<mapsto> v))))"

text \<open>
  \<open>serializer.save(**kwargs)\<close> creates the row from \<open>{**validated_data, **kwargs}\<close>.
\<close>

definition Course_create :: "env \<Rightarrow> db \<Rightarrow> (string \<rightharpoonup> pyval) \<Rightarrow> exn + course \<times> db" where
  "Course_create e d attrs =
     (case attrs ''user'' of
        Some (UserVal u) \<Rightarrow>
          (case assign_user u of
             Inl x \<Rightarrow> Inl x
           | Inr owner_pk \<Rightarrow>
               (case (attrs ''title'', attrs ''description'') of
                  (Some (Str t), Some (Str ds)) \<Rightarrow>
                    (let row = \<lparr>course_id = uuid4 e, course_user = owner_pk,
                                title = t, description = ds\<rparr>
                     in Inr (row, d\<lparr>Course_objects := Course_objects d @ [row]\<rparr>))
                | _ \<Rightarrow> Inl IntegrityError))
      | _ \<Rightarrow> Inl IntegrityError)"

definition Student_create :: "env \<Rightarrow> db \<Rightarrow> (string \<rightharpoonup> pyval) \<Rightarrow> exn + student \<times> db" where
  "Student_create e d attrs =
     (case attrs ''user'' of
        Some (UserVal u) \<Rightarrow>
          (case assign_user u of
             Inl x \<Rightarrow> Inl x
           | Inr owner_pk \<Rightarrow>
               (case (attrs ''first_name'', attrs ''last_name'', attrs ''date_of_receipt'') of
                  (Some (Str f), Some (Str l), Some (DateVal dt)) \<Rightarrow>
                    (let row = \<lparr>student_id = uuid4 e, student_user = owner_pk, first_name = f,
                                last_name = l, date_of_receipt = dt\<rparr>
                     in Inr (row, d\<lparr>Student_objects := Student_objects d @ [row]\<rparr>))
                | _ \<Rightarrow> Inl IntegrityError))
      | _ \<Rightarrow> Inl IntegrityError)"

text \<open>
  The answer of a create route: 201 with the stored row, 400 for an invalid payload,
  401 or 403 for a request without permission.
\<close>

datatype 'row api_response = Created_201 'row | BadRequest_400 | NotAuthenticated

definition CourseViewSet_create ::
  "env \<Rightarrow> request \<Rightarrow> (string \<rightharpoonup> string) \<Rightarrow> db \<Rightarrow> exn + course api_response \<times> db" where
  "CourseViewSet_create e r data d =
     (if \<not> has_permission r then Inr (NotAuthenticated, d)
      else (case validate_fields e (writable_fields CourseSerializer_fields) data of
              None \<Rightarrow> Inr (BadRequest_400, d)
            | Some validated_data \<Rightarrow>
                (case Course_create e d (validated_data ++ [''user'' \<mapsto> UserVal (user r)]) of
                   Inl x \<Rightarrow> Inl x
                 | Inr (row, d') \<Rightarrow> Inr (Created_201 row, d'))))"

definition StudentViewSet_create ::
  "env \<Rightarrow> request \<Rightarrow> (string \<rightharpoonup> string) \<Rightarrow> db \<Rightarrow> exn + student api_response \<times> db" where
  "StudentViewSet_create e r data d =
     (if \<not> has_permission r then Inr (NotAuthenticated, d)
      else (case validate_fields e (writable_fields StudentSerializer_fields) data of
              None \<Rightarrow> Inr (BadRequest_400, d)
            | Some validated_data \<Rightarrow>
                (case Student_create e d (validated_data ++ [''user'' \<mapsto> UserVal (user r)]) of
                   Inl x \<Rightarrow> Inl x
                 | Inr (row, d') \<Rightarrow> Inr (Created_201 row, d'))))"

section \<open>A concrete scenario\<close>

text \<open>
  Today is 2024-06-01. Alice owns course 10 and student 20, and wrote review 30 of her
  course; Bob is another user, without a Student row; Carol is staff.
\<close>

definition example_parse_date :: "string \<Rightarrow> date option" where
  "example_parse_date s =
     (if s = ''2024-05-01'' then Some (2024, 5, 1)
      else if s = ''2024-07-01'' then Some (2024, 7, 1)
      else None)"

definition example_parse_int :: "string \<Rightarrow> int option" where
  "example_parse_int s =
     (if s = ''4'' then Some 4 else if s = ''6'' then Some 6 else None)"

definition example_env :: env where
  "example_env =
     \<lparr>today = (2024, 6, 1), uuid4 = 100, strptime = example_parse_date,
      parse_int = example_parse_int, form_char_field = Some, serializer_char_field = Some,
      parse_date = example_parse_date, integer_field_range = (- 2147483648, 2147483647)\<rparr>"

definition alice :: request_user where "alice = User 1 ''alice'' False"
definition bob :: request_user where "bob = User 2 ''bob'' False"
definition carol :: request_user where "carol = User 3 ''carol'' True"

definition example_course :: course where
  "example_course =
     \<lparr>course_id = 10, course_user = 1, title = ''Course10'', description = ''course10''\<rparr>"

definition example_student :: student where
  "example_student =
     \<lparr>student_id = 20, student_user = 1, first_name = ''Test'', last_name = ''Student'',
      date_of_receipt = (2022, 12, 12)\<rparr>"

definition example_review :: review where
  "example_review =
     \<lparr>review_id = 30, review_course = 10, review_student = 20,
      review_text = Some ''Great course!'', grade = 5\<rparr>"

definition example_enrollment :: course_to_student where
  "example_enrollment = \<lparr>cts_id = 40, cts_course = 10, cts_student = 20\<rparr>"

definition example_db :: db where
  "example_db =
     \<lparr>Course_objects = [example_course], Student_objects = [example_student],
      CourseToStudent_objects = [], Review_objects = [example_review]\<rparr>"

definition enrolled_db :: db where
  "enrolled_db = example_db\<lparr>CourseToStudent_objects := [example_enrollment]\<rparr>"

definition student_form :: "string \<Rightarrow> string \<rightharpoonup> string" where
  "student_form d =
     [''first_name'' \<mapsto> ''New'', ''last_name'' \<mapsto> ''Student'', ''date_of_receipt'' \<mapsto> d]"

definition example_form :: "string \<rightharpoonup> string" where
  "example_form =
     [''first_name'' \<mapsto> ''New'', ''last_name'' \<mapsto> ''Student'',
      ''date_of_receipt'' \<mapsto> ''2024-05-01'', ''title'' \<mapsto> ''New Course'',
      ''description'' \<mapsto> ''This is a new course.'', ''review_text'' \<mapsto> ''New review!'',
      ''grade'' \<mapsto> ''4'']"

definition course_payload :: "string \<rightharpoonup> string" where
  "course_payload = [''title'' \<mapsto> ''Course10'', ''description'' \<mapsto> ''course10'']"

definition student_payload :: "string \<rightharpoonup> string" where
  "student_payload =
     [''first_name'' \<mapsto> ''Student 1'', ''last_name'' \<mapsto> ''Noskov'',
      ''date_of_receipt'' \<mapsto> ''2024-05-01'']"

section \<open>Properties\<close>

subsection \<open>Helper facts\<close>

lemma validate_future_date_Inr: "validate_future_date e d = Inr () \<longleftrightarrow> d \<le> today e"
  by (auto simp: validate_future_date_def)

lemma validate_future_date_Inl: "validate_future_date e d = Inl x \<longleftrightarrow> x = ValidationError \<and> d > today e"
  by (auto simp: validate_future_date_def)

lemma Student_save_rows:
  assumes "Student_save d i p fn ln dt = Inr d'" and "s \<in> set (Student_objects d')"
  shows "s \<in> set (Student_objects d) \<or> date_of_receipt s = dt"
  using assms
  by (auto simp: Student_save_def Let_def split: option.splits if_splits)

lemma create_student_view_rows:
  assumes "create_student_view e r d = Inr (resp, d')" and "s \<in> set (Student_objects d')"
  shows "s \<in> set (Student_objects d) \<or> date_of_receipt s \<le> today e"
  using assms
  by (auto simp: create_student_view_def not_less
           split: if_splits sum.splits option.splits dest: Student_save_rows)

lemma create_student_rows:
  assumes "create_student e r d = Inr (resp, d')" and "s \<in> set (Student_objects d')"
  shows "s \<in> set (Student_objects d) \<or> date_of_receipt s \<le> today e"
  using assms
  by (auto simp: create_student_def login_required_def split: if_splits
           dest: create_student_view_rows)

lemma edit_student_rows:
  assumes "edit_student e r sid d = Inr (resp, d')" and "s \<in> set (Student_objects d')"
  shows "s \<in> set (Student_objects d) \<or> date_of_receipt s \<le> today e"
  using assms
  by (auto simp: edit_student_def not_less
           split: if_splits sum.splits option.splits dest: Student_save_rows)

subsection \<open>No Student row with a future date\<close>

lemma create_student_future_date:
  assumes "POST r ''date_of_receipt'' = Some str" and "strptime e str = Some dt"
    and "today e < dt"
  shows "\<exists>resp. create_student e r d = Inr (resp, d) \<and> status_code resp \<noteq> 302
           \<or> create_student e r d = Inr (RedirectToLogin (Some ''login''), d)"
proof (cases "user r")
  case AnonymousUser
  then show ?thesis
    by (simp add: create_student_def login_required_def)
next
  case (User p n st)
  with assms show ?thesis
    by (simp add: create_student_def login_required_def create_student_view_def)
qed

lemma edit_student_future_date:
  assumes "POST r ''date_of_receipt'' = Some str" and "strptime e str = Some dt"
    and "today e < dt"
  shows "case edit_student e r sid d of
           Inl x \<Rightarrow> x \<in> {DoesNotExist, MultipleObjectsReturned}
         | Inr (resp, d') \<Rightarrow> d' = d \<and> status_code resp = 200"
proof (cases "Student_get_id d sid")
  case (Inl x)
  then have "x \<in> {DoesNotExist, MultipleObjectsReturned}"
    unfolding Student_get_id_def
    by (cases "filter (\<lambda>s. student_id s = sid) (Student_objects d)" rule: get_one.cases) auto
  with Inl show ?thesis
    by (simp add: edit_student_def)
next
  case (Inr student_obj)
  with assms show ?thesis
    by (simp add: edit_student_def)
qed

text \<open>
  Claim C3. A Student row whose date passes the model validation of the field has
  \<open>date_of_receipt \<le> today\<close>;
  \<open>create_student\<close> and \<open>edit_student\<close> keep every stored date at or before today; and a
  submitted date strictly in the future is never saved: \<open>create_student\<close> answers with a
  page (or the login redirect) and \<open>edit_student\<close> with a page or a failed lookup, the
  database unchanged. For the owner's POST the page carries the future-date error.
\<close>

theorem student_date_of_receipt_not_future:
  "(Student_date_of_receipt_clean e s = Inr () \<longrightarrow> date_of_receipt s \<le> today e)
   \<and> ((\<forall>x \<in> set (Student_objects d). date_of_receipt x \<le> today e)
         \<and> create_student e r d = Inr (resp, d')
       \<longrightarrow> (\<forall>x \<in> set (Student_objects d'). date_of_receipt x \<le> today e))
   \<and> ((\<forall>x \<in> set (Student_objects d). date_of_receipt x \<le> today e)
         \<and> edit_student e r sid d = Inr (resp, d')
       \<longrightarrow> (\<forall>x \<in> set (Student_objects d'). date_of_receipt x \<le> today e))
   \<and> (POST r ''date_of_receipt'' = Some str \<and> strptime e str = Some dt \<and> today e < dt \<longrightarrow>
        ((\<exists>page. create_student e r d = Inr (page, d) \<and> status_code page \<noteq> 302)
           \<or> create_student e r d = Inr (RedirectToLogin (Some ''login''), d))
        \<and> (case edit_student e r sid d of
              Inl x \<Rightarrow> x \<in> {DoesNotExist, MultipleObjectsReturned}
            | Inr (page, d') \<Rightarrow> d' = d \<and> status_code page = 200)
        \<and> (req_method r = ''POST'' \<and> is_authenticated (user r)
             \<and> Student_filter_user d (user r) = Inr [] \<longrightarrow>
             create_student e r d = Inr (Render ''create_student.html'' (Some ErrFutureDate), d))
        \<and> (req_method r = ''POST'' \<and> Student_get_id d sid = Inr st
             \<and> (user_eq (user r) (student_user st) \<or> is_staff (user r)) \<longrightarrow>
             edit_student e r sid d = Inr (Render ''edit_student.html'' (Some ErrFutureDate), d)))"
proof -
  have a: "Student_date_of_receipt_clean e s = Inr () \<longrightarrow> date_of_receipt s \<le> today e"
    by (auto simp: Student_date_of_receipt_clean_def date_of_receipt_validators_def
          validate_future_date_def split: if_splits)
  have b: "\<forall>x \<in> set (Student_objects d'). date_of_receipt x \<le> today e"
    if "\<forall>x \<in> set (Student_objects d). date_of_receipt x \<le> today e"
      and "create_student e r d = Inr (resp, d')"
    using that create_student_rows [of e r d resp d'] by blast
  have c: "\<forall>x \<in> set (Student_objects d'). date_of_receipt x \<le> today e"
    if "\<forall>x \<in> set (Student_objects d). date_of_receipt x \<le> today e"
      and "edit_student e r sid d = Inr (resp, d')"
    using that edit_student_rows [of e r sid d resp d'] by blast
  have f: "create_student e r d = Inr (Render ''create_student.html'' (Some ErrFutureDate), d)"
    if "POST r ''date_of_receipt'' = Some str" "strptime e str = Some dt" "today e < dt"
      "req_method r = ''POST''" "is_authenticated (user r)"
      "Student_filter_user d (user r) = Inr []"
    using that by (simp add: create_student_def login_required_def create_student_view_def)
  have g: "edit_student e r sid d = Inr (Render ''edit_student.html'' (Some ErrFutureDate), d)"
    if "POST r ''date_of_receipt'' = Some str" "strptime e str = Some dt" "today e < dt"
      "req_method r = ''POST''" "Student_get_id d sid = Inr st"
      "user_eq (user r) (student_user st) \<or> is_staff (user r)"
    using that by (simp add: edit_student_def)
  from a b c f g create_student_future_date [where r = r and e = e and d = d]
    edit_student_future_date [where r = r and e = e and d = d and sid = sid]
  show ?thesis by blast
qed

theorem student_date_of_receipt_not_future_witness:
  "create_student example_env
     \<lparr>req_method = ''POST'', user = bob, POST = student_form ''2024-07-01''\<rparr> example_db =
     Inr (Render ''create_student.html'' (Some ErrFutureDate), example_db)
   \<and> edit_student example_env
        \<lparr>req_method = ''POST'', user = alice, POST = student_form ''2024-07-01''\<rparr> 20 example_db =
     Inr (Render ''edit_student.html'' (Some ErrFutureDate), example_db)
   \<and> Student_date_of_receipt_clean example_env example_student = Inr ()
   \<and> date_of_receipt example_student \<le> today example_env"
proof -
  let ?rb = "\<lparr>req_method = ''POST'', user = bob, POST = student_form ''2024-07-01''\<rparr>"
  let ?ra = "\<lparr>req_method = ''POST'', user = alice, POST = student_form ''2024-07-01''\<rparr>"
  have h1: "POST ?rb ''date_of_receipt'' = Some ''2024-07-01''"
    and h1': "POST ?ra ''date_of_receipt'' = Some ''2024-07-01''"
    by (simp_all add: student_form_def)
  have h2: "strptime example_env ''2024-07-01'' = Some (2024, 7, 1)"
    by (simp add: example_env_def example_parse_date_def)
  have h3: "today example_env < (2024, 7, 1)"
    by (simp add: example_env_def)
  have h4: "req_method ?rb = ''POST'' \<and> is_authenticated (user ?rb)
      \<and> Student_filter_user example_db (user ?rb) = Inr []"
    by (simp add: bob_def example_db_def example_student_def)
  have h5: "req_method ?ra = ''POST'' \<and> Student_get_id example_db 20 = Inr example_student
      \<and> (user_eq (user ?ra) (student_user example_student) \<or> is_staff (user ?ra))"
    by (simp add: alice_def example_db_def example_student_def Student_get_id_def)
  have h6: "Student_date_of_receipt_clean example_env example_student = Inr ()"
    by (simp add: Student_date_of_receipt_clean_def date_of_receipt_validators_def
          validate_future_date_def example_env_def example_student_def)
  from student_date_of_receipt_not_future
         [of example_env example_student example_db ?rb "Redirect ''students''" example_db 20
             "''2024-07-01''" "(2024, 7, 1)" example_student]
       h1 h2 h3 h4 h6
  have b: "create_student example_env ?rb example_db =
             Inr (Render ''create_student.html'' (Some ErrFutureDate), example_db)
           \<and> date_of_receipt example_student \<le> today example_env"
    by blast
  from student_date_of_receipt_not_future
         [of example_env example_student example_db ?ra "Redirect ''students''" example_db 20
             "''2024-07-01''" "(2024, 7, 1)" example_student]
       h1' h2 h3 h5
  have a: "edit_student example_env ?ra 20 example_db =
             Inr (Render ''edit_student.html'' (Some ErrFutureDate), example_db)"
    by blast
  from a b h6 show ?thesis by blast
qed

subsection \<open>Enrollment pairs\<close>

lemma get_one_Inl: "get_one rows = Inl x \<Longrightarrow> x = DoesNotExist \<or> x = MultipleObjectsReturned"
  by (cases rows rule: get_one.cases) auto

lemma get_one_Inr: "get_one rows = Inr x \<longleftrightarrow> rows = [x]"
  by (cases rows rule: get_one.cases) auto

lemma get_one_DoesNotExist: "get_one rows = Inl DoesNotExist \<longleftrightarrow> rows = []"
  by (cases rows rule: get_one.cases) auto

lemma CourseToStudent_filter_empty:
  "CourseToStudent_filter d s c = [] \<longleftrightarrow>
     (course_id c, student_id s) \<notin>
       set (map (\<lambda>l. (cts_course l, cts_student l)) (CourseToStudent_objects d))"
  by (force simp: CourseToStudent_filter_def filter_empty_conv image_iff)

lemma CourseToStudent_create_unique:
  assumes "unique_together (CourseToStudent_objects d)"
    and "CourseToStudent_create e d s c = Inr d'"
  shows "unique_together (CourseToStudent_objects d')"
  using assms
  by (auto simp: CourseToStudent_create_def unique_together_def split: if_splits)

lemma CourseToStudent_create_duplicate:
  "CourseToStudent_filter d s c \<noteq> [] \<Longrightarrow> CourseToStudent_create e d s c = Inl IntegrityError"
  by (simp add: CourseToStudent_filter_empty CourseToStudent_create_def)

lemma enroll_course_view_unique:
  assumes "unique_together (CourseToStudent_objects d)"
    and "enroll_course_view e cid r d = Inr (resp, d')"
  shows "unique_together (CourseToStudent_objects d')"
  using assms
  by (auto simp: enroll_course_view_def split: sum.splits exn.splits if_splits
           dest: CourseToStudent_create_unique)

lemma enroll_course_unique:
  assumes "unique_together (CourseToStudent_objects d)"
    and "enroll_course e r cid d = Inr (resp, d')"
  shows "unique_together (CourseToStudent_objects d')"
  using assms
  by (auto simp: enroll_course_def login_required_def split: if_splits
           dest: enroll_course_view_unique)

lemma unique_together_filter:
  "unique_together rows \<Longrightarrow> unique_together (filter P rows)"
  by (simp add: unique_together_def distinct_map_filter)

lemma unenroll_course_unique:
  assumes "unique_together (CourseToStudent_objects d)"
    and "unenroll_course r cid d = Inr (resp, d')"
  shows "unique_together (CourseToStudent_objects d')"
  using assms
  by (auto simp: unenroll_course_def CourseToStudent_delete_def unique_together_filter
           split: sum.splits exn.splits)

lemma Student_filter_user_Inl: "Student_filter_user d u = Inl x \<Longrightarrow> x = TypeError"
  by (cases u) auto

lemma Student_get_user_Inl:
  "Student_get_user d u = Inl x \<Longrightarrow> x \<in> {TypeError, DoesNotExist, MultipleObjectsReturned}"
  by (auto simp: Student_get_user_def split: sum.splits
           dest: Student_filter_user_Inl get_one_Inl)

lemma enroll_course_no_IntegrityError: "enroll_course e r cid d \<noteq> Inl IntegrityError"
proof -
  have "enroll_course_view e cid r d \<noteq> Inl IntegrityError"
    by (auto simp: enroll_course_view_def Course_get_id_def
          CourseToStudent_create_def CourseToStudent_filter_empty
          split: sum.splits exn.splits if_splits
          dest!: get_one_Inl Student_get_user_Inl)
  then show ?thesis
    by (simp add: enroll_course_def login_required_def)
qed

lemma unique_together_rows:
  assumes "unique_together rows" and "a \<in> set rows" and "b \<in> set rows" and "a \<noteq> b"
  shows "(cts_course a, cts_student a) \<noteq> (cts_course b, cts_student b)"
proof -
  from assms(1) have "inj_on (\<lambda>l. (cts_course l, cts_student l)) (set rows)"
    by (simp add: unique_together_def distinct_map)
  with assms(2-4) show ?thesis
    by (auto dest: inj_onD)
qed

text \<open>
  Claim C5, as stated, says that no storage-level constraint keeps the pair unique. The
  model declares one (\<open>unique_together\<close>): inserting the pair of an existing enrollment is
  refused by the storage layer itself.
\<close>

theorem enrollment_uniqueness_only_prechecked_counterexample:
  "CourseToStudent_filter enrolled_db example_student example_course = [example_enrollment]
   \<and> CourseToStudent_create example_env enrolled_db example_student example_course
       = Inl IntegrityError"
  by (simp add: CourseToStudent_create_def CourseToStudent_filter_def enrolled_db_def
        example_db_def example_enrollment_def example_student_def example_course_def)

text \<open>
  Claim C5, amended. Two distinct CourseToStudent rows of a table that satisfies the
  \<open>unique_together\<close> constraint have different (course, student) pairs. The constraint is
  enforced by the storage layer: an insert keeps it, and an insert of a stored pair fails
  with \<open>IntegrityError\<close>. \<open>enroll_course\<close> checks for the pair first, so it keeps the
  constraint too and never meets the \<open>IntegrityError\<close>; \<open>unenroll_course\<close> keeps it as well.
\<close>

theorem enrollment_pair_unique:
  "(unique_together rows \<longrightarrow>
      (\<forall>a \<in> set rows. \<forall>b \<in> set rows.
         a \<noteq> b \<longrightarrow> (cts_course a, cts_student a) \<noteq> (cts_course b, cts_student b)))
   \<and> (unique_together (CourseToStudent_objects d) \<and> CourseToStudent_create e d s c = Inr d1
        \<longrightarrow> unique_together (CourseToStudent_objects d1))
   \<and> (CourseToStudent_filter d s c \<noteq> [] \<longrightarrow>
        CourseToStudent_create e d s c = Inl IntegrityError)
   \<and> (unique_together (CourseToStudent_objects d) \<and> enroll_course e r cid d = Inr (resp, d2)
        \<longrightarrow> unique_together (CourseToStudent_objects d2))
   \<and> enroll_course e r cid d \<noteq> Inl IntegrityError
   \<and> (unique_together (CourseToStudent_objects d) \<and> unenroll_course r cid d = Inr (resp3, d3)
        \<longrightarrow> unique_together (CourseToStudent_objects d3))"
  using unique_together_rows [of rows] CourseToStudent_create_unique [of d e s c d1]
    CourseToStudent_create_duplicate [of d s c e] enroll_course_unique [of d e r cid resp d2]
    enroll_course_no_IntegrityError [of e r cid d] unenroll_course_unique [of d r cid resp3 d3]
  by blast

theorem enrollment_pair_unique_witness:
  "unique_together (CourseToStudent_objects example_db)
   \<and> enroll_course example_env \<lparr>req_method = ''POST'', user = alice, POST = Map.empty\<rparr> 10
        example_db
       = Inr (Redirect ''courses'',
              example_db\<lparr>CourseToStudent_objects :=
                [\<lparr>cts_id = 100, cts_course = 10, cts_student = 20\<rparr>]\<rparr>)
   \<and> unique_together [\<lparr>cts_id = 100, cts_course = 10, cts_student = 20\<rparr>]
   \<and> CourseToStudent_filter enrolled_db example_student example_course \<noteq> []
   \<and> CourseToStudent_create example_env enrolled_db example_student example_course
       = Inl IntegrityError"
proof -
  let ?r = "\<lparr>req_method = ''POST'', user = alice, POST = Map.empty\<rparr>"
  let ?d = "example_db\<lparr>CourseToStudent_objects :=
              [\<lparr>cts_id = 100, cts_course = 10, cts_student = 20\<rparr>]\<rparr>"
  have h1: "unique_together (CourseToStudent_objects example_db)"
    by (simp add: unique_together_def example_db_def)
  have h2: "enroll_course example_env ?r 10 example_db = Inr (Redirect ''courses'', ?d)"
    by (simp add: enroll_course_def login_required_def enroll_course_view_def Course_get_id_def
          Student_get_user_def CourseToStudent_filter_def CourseToStudent_create_def
          example_db_def example_env_def alice_def example_course_def example_student_def)
  have h3: "CourseToStudent_filter enrolled_db example_student example_course \<noteq> []"
    by (simp add: CourseToStudent_filter_def enrolled_db_def example_db_def
          example_enrollment_def example_student_def example_course_def)
  from h1 h2 enrollment_pair_unique
         [of "[]" example_db example_env example_student example_course example_db ?r 10
             "Redirect ''courses''" ?d "Redirect ''courses''" example_db]
  have a: "unique_together (CourseToStudent_objects ?d)" by blast
  from h3 enrollment_pair_unique
         [of "[]" enrolled_db example_env example_student example_course enrolled_db ?r 10
             "Redirect ''courses''" enrolled_db "Redirect ''courses''" enrolled_db]
  have b: "CourseToStudent_create example_env enrolled_db example_student example_course
             = Inl IntegrityError" by blast
  from a have a': "unique_together [\<lparr>cts_id = 100, cts_course = 10, cts_student = 20\<rparr>]"
    by simp
  from h1 h2 a' h3 b show ?thesis by blast
qed

subsection \<open>Business-rule conflicts\<close>

text \<open>
  Claim C6. Each conflict is answered by a rendered page (status 200) that carries the
  error, and the database after the request is the database before it:
  enrolling the requester's student in a course it is already enrolled in; a POST to
  \<open>create_student\<close> by a user who already has a Student row; unenrolling the requester's
  student from a course it is not enrolled in.
\<close>

theorem business_rule_conflicts:
  "(is_authenticated (user r) \<and> Course_get_id d cid = Inr c
      \<and> Student_get_user d (user r) = Inr s \<and> CourseToStudent_filter d s c \<noteq> [] \<longrightarrow>
      enroll_course e r cid d = Inr (Render ''courses.html'' (Some ErrAlreadyEnrolled), d))
   \<and> (is_authenticated (user r) \<and> req_method r = ''POST''
        \<and> Student_filter_user d (user r) = Inr rows \<and> rows \<noteq> [] \<longrightarrow>
        create_student e r d = Inr (Render ''create_student.html'' (Some ErrStudentExists), d))
   \<and> (Course_get_id d cid = Inr c \<and> Student_get_user d (user r) = Inr s
        \<and> CourseToStudent_filter d s c = [] \<longrightarrow>
        unenroll_course r cid d = Inr (Render ''courses.html'' (Some ErrAlreadyLeft), d))
   \<and> status_code (Render template msg) = 200"
  by (simp add: enroll_course_def login_required_def enroll_course_view_def create_student_def
        create_student_view_def unenroll_course_def)

theorem business_rule_conflicts_witness:
  "enroll_course example_env \<lparr>req_method = ''POST'', user = alice, POST = Map.empty\<rparr> 10
     enrolled_db = Inr (Render ''courses.html'' (Some ErrAlreadyEnrolled), enrolled_db)
   \<and> create_student example_env
        \<lparr>req_method = ''POST'', user = alice, POST = student_form ''2024-05-01''\<rparr> example_db
       = Inr (Render ''create_student.html'' (Some ErrStudentExists), example_db)
   \<and> unenroll_course \<lparr>req_method = ''POST'', user = alice, POST = Map.empty\<rparr> 10 example_db
       = Inr (Render ''courses.html'' (Some ErrAlreadyLeft), example_db)"
proof -
  let ?r = "\<lparr>req_method = ''POST'', user = alice, POST = Map.empty\<rparr>"
  let ?rs = "\<lparr>req_method = ''POST'', user = alice, POST = student_form ''2024-05-01''\<rparr>"
  have h1: "is_authenticated (user ?r) \<and> Course_get_id enrolled_db 10 = Inr example_course
      \<and> Student_get_user enrolled_db (user ?r) = Inr example_student
      \<and> CourseToStudent_filter enrolled_db example_student example_course \<noteq> []"
    by (simp add: alice_def Course_get_id_def Student_get_user_def CourseToStudent_filter_def
          enrolled_db_def example_db_def example_course_def example_student_def
          example_enrollment_def)
  have h2: "is_authenticated (user ?rs) \<and> req_method ?rs = ''POST''
      \<and> Student_filter_user example_db (user ?rs) = Inr [example_student]
      \<and> [example_student] \<noteq> []"
    by (simp add: alice_def example_db_def example_student_def)
  have h3: "Course_get_id example_db 10 = Inr example_course
      \<and> Student_get_user example_db (user ?r) = Inr example_student
      \<and> CourseToStudent_filter example_db example_student example_course = []"
    by (simp add: alice_def Course_get_id_def Student_get_user_def CourseToStudent_filter_def
          example_db_def example_course_def example_student_def)
  from h1 business_rule_conflicts
         [of ?r enrolled_db 10 example_course example_student example_env "[example_student]"]
  have a: "enroll_course example_env ?r 10 enrolled_db
             = Inr (Render ''courses.html'' (Some ErrAlreadyEnrolled), enrolled_db)"
    by blast
  from h2 business_rule_conflicts
         [of ?rs example_db 10 example_course example_student example_env "[example_student]"]
  have b: "create_student example_env ?rs example_db
             = Inr (Render ''create_student.html'' (Some ErrStudentExists), example_db)"
    by blast
  from h3 business_rule_conflicts
         [of ?r example_db 10 example_course example_student example_env "[example_student]"]
  have c: "unenroll_course ?r 10 example_db
             = Inr (Render ''courses.html'' (Some ErrAlreadyLeft), example_db)"
    by blast
  from a b c show ?thesis by blast
qed

subsection \<open>Ownership in the page handlers\<close>

lemma Student_get_id_Inr:
  "Student_get_id d sid = Inr st \<Longrightarrow> st \<in> set (Student_objects d) \<and> student_id st = sid"
proof -
  assume "Student_get_id d sid = Inr st"
  then have "filter (\<lambda>s. student_id s = sid) (Student_objects d) = [st]"
    by (simp add: Student_get_id_def get_one_Inr)
  then have "st \<in> set (filter (\<lambda>s. student_id s = sid) (Student_objects d))"
    by simp
  then show ?thesis by simp
qed

lemma Course_get_id_Inr:
  "Course_get_id d cid = Inr c \<Longrightarrow> c \<in> set (Course_objects d) \<and> course_id c = cid"
proof -
  assume "Course_get_id d cid = Inr c"
  then have "filter (\<lambda>x. course_id x = cid) (Course_objects d) = [c]"
    by (simp add: Course_get_id_def get_one_Inr)
  then have "c \<in> set (filter (\<lambda>x. course_id x = cid) (Course_objects d))"
    by simp
  then show ?thesis by simp
qed

lemma Review_rows_id_Inr:
  "get_one (Review_rows_id d rid) = Inr rv \<Longrightarrow> rv \<in> set (Review_objects d) \<and> review_id rv = rid"
proof -
  assume "get_one (Review_rows_id d rid) = Inr rv"
  then have "filter (\<lambda>x. review_id x = rid) (Review_objects d) = [rv]"
    by (simp add: Review_rows_id_def get_one_Inr)
  then have "rv \<in> set (filter (\<lambda>x. review_id x = rid) (Review_objects d))"
    by simp
  then show ?thesis by simp
qed

lemma get_object_or_404_Inr: "get_object_or_404 rows = Inr x \<longleftrightarrow> get_one rows = Inr x"
  by (cases rows rule: get_one.cases) (auto simp: get_object_or_404_def)

lemma non_owner_student:
  assumes "Student_get_id d sid = Inr st"
    and "\<not> user_eq (user r) (student_user st)" and "\<not> is_staff (user r)"
  shows "edit_student e r sid d = Inr (Render ''edit_student.html'' (Some ErrEditOwnStudent), d)"
    and "delete_student r sid d = Inr (Render ''delete_student.html'' (Some ErrDeleteOwnStudent), d)"
  using assms by (simp_all add: edit_student_def delete_student_def)

lemma non_owner_course:
  assumes "Course_get_id d cid = Inr c"
    and "\<not> user_eq (user r) (course_user c)" and "\<not> is_staff (user r)"
  shows "req_method r = ''POST'' \<Longrightarrow>
           edit_course r cid d = Inr (Render ''edit_course.html'' (Some ErrEditOwnCourse), d)"
    and "req_method r \<noteq> ''POST'' \<Longrightarrow> edit_course r cid d = Inr (Render ''edit_course.html'' None, d)"
    and "delete_course r cid d = Inr (Render ''delete_course.html'' (Some ErrDeleteOwnCourse), d)"
  using assms by (simp_all add: edit_course_def delete_course_def)

lemma non_owner_review:
  assumes "get_one (Review_rows_id d rid) = Inr rv" and "Review_student_user d rv = Inr owner_pk"
    and "\<not> user_eq (user r) owner_pk" and "\<not> is_staff (user r)"
  shows "req_method r = ''POST'' \<Longrightarrow>
           edit_review e r rid d = Inr (Render ''edit_review.html'' (Some ErrEditOwnReview), d)"
    and "req_method r \<noteq> ''POST'' \<Longrightarrow> edit_review e r rid d = Inr (Render ''edit_review.html'' None, d)"
    and "delete_review r rid d = Inr (Render ''reviews.html'' (Some ErrDeleteOwnReview), d)"
  using assms get_object_or_404_Inr [of "Review_rows_id d rid" rv]
  by (simp_all add: edit_review_def delete_review_def)

lemma staff_student:
  assumes "is_staff (user r)" and "Student_get_id d sid = Inr st"
  shows "req_method r = ''POST'' \<Longrightarrow> POST r ''first_name'' = Some f \<Longrightarrow> POST r ''last_name'' = Some l
           \<Longrightarrow> POST r ''date_of_receipt'' = Some str \<Longrightarrow> strptime e str = Some dt
           \<Longrightarrow> dt \<le> today e \<Longrightarrow>
         edit_student e r sid d =
           Inr (Redirect ''students'',
                d\<lparr>Student_objects :=
                    map (\<lambda>x. if student_id x = sid
                              then st\<lparr>first_name := f, last_name := l, date_of_receipt := dt\<rparr>
                              else x) (Student_objects d)\<rparr>)"
    and "delete_student r sid d = Inr (Redirect ''students'', Student_delete d st)"
    and "Student_get_id (Student_delete d st) sid = Inl DoesNotExist"
proof -
  from assms(2) have m: "st \<in> set (Student_objects d)" and i: "student_id st = sid"
    by (simp_all add: Student_get_id_Inr)
  have row: "\<lparr>student_id = sid, student_user = student_user st, first_name = f, last_name = l,
      date_of_receipt = dt\<rparr> = st\<lparr>first_name := f, last_name := l, date_of_receipt := dt\<rparr>"
    using i by (cases st) simp
  show "req_method r = ''POST'' \<Longrightarrow> POST r ''first_name'' = Some f \<Longrightarrow> POST r ''last_name'' = Some l
           \<Longrightarrow> POST r ''date_of_receipt'' = Some str \<Longrightarrow> strptime e str = Some dt
           \<Longrightarrow> dt \<le> today e \<Longrightarrow>
         edit_student e r sid d =
           Inr (Redirect ''students'',
                d\<lparr>Student_objects :=
                    map (\<lambda>x. if student_id x = sid
                              then st\<lparr>first_name := f, last_name := l, date_of_receipt := dt\<rparr>
                              else x) (Student_objects d)\<rparr>)"
    using assms m i row
    by (auto simp: edit_student_def Student_save_def Let_def)
  show "delete_student r sid d = Inr (Redirect ''students'', Student_delete d st)"
    using assms by (simp add: delete_student_def)
  show "Student_get_id (Student_delete d st) sid = Inl DoesNotExist"
    using i by (simp add: Student_get_id_def Student_delete_def get_one_DoesNotExist
        filter_empty_conv)
qed

lemma staff_course:
  assumes "is_staff (user r)" and "Course_get_id d cid = Inr c"
  shows "req_method r = ''POST'' \<Longrightarrow> POST r ''title'' = Some t \<Longrightarrow> POST r ''description'' = Some ds
           \<Longrightarrow>
         edit_course r cid d =
           Inr (Redirect ''courses'',
                d\<lparr>Course_objects :=
                    map (\<lambda>x. if course_id x = cid then c\<lparr>title := t, description := ds\<rparr> else x)
                      (Course_objects d)\<rparr>)"
    and "delete_course r cid d = Inr (Redirect ''courses'', Course_delete d c)"
    and "Course_get_id (Course_delete d c) cid = Inl DoesNotExist"
proof -
  from assms(2) have m: "c \<in> set (Course_objects d)" and i: "course_id c = cid"
    by (simp_all add: Course_get_id_Inr)
  have row: "\<lparr>course_id = cid, course_user = course_user c, title = t, description = ds\<rparr>
      = c\<lparr>title := t, description := ds\<rparr>"
    using i by (cases c) simp
  show "req_method r = ''POST'' \<Longrightarrow> POST r ''title'' = Some t \<Longrightarrow> POST r ''description'' = Some ds
           \<Longrightarrow>
         edit_course r cid d =
           Inr (Redirect ''courses'',
                d\<lparr>Course_objects :=
                    map (\<lambda>x. if course_id x = cid then c\<lparr>title := t, description := ds\<rparr> else x)
                      (Course_objects d)\<rparr>)"
    using assms m i row
    by (auto simp: edit_course_def Course_save_def Let_def)
  show "delete_course r cid d = Inr (Redirect ''courses'', Course_delete d c)"
    using assms by (simp add: delete_course_def)
  show "Course_get_id (Course_delete d c) cid = Inl DoesNotExist"
    using i by (simp add: Course_get_id_def Course_delete_def get_one_DoesNotExist
        filter_empty_conv)
qed

lemma staff_review:
  assumes "is_staff (user r)" and "get_one (Review_rows_id d rid) = Inr rv"
    and "Review_student_user d rv = Inr owner_pk"
  shows "req_method r = ''POST'' \<Longrightarrow> ReviewForm_clean e (POST r) = Some (t, g) \<Longrightarrow>
         edit_review e r rid d =
           Inr (Redirect ''courses'',
                d\<lparr>Review_objects :=
                    map (\<lambda>x. if review_id x = rid then rv\<lparr>review_text := Some t, grade := g\<rparr>
                              else x) (Review_objects d)\<rparr>)"
    and "delete_review r rid d = Inr (Redirect ''courses'', Review_delete d rv)"
    and "Review_rows_id (Review_delete d rv) rid = []"
proof -
  from assms(2) have i: "review_id rv = rid"
    by (simp add: Review_rows_id_Inr)
  show "req_method r = ''POST'' \<Longrightarrow> ReviewForm_clean e (POST r) = Some (t, g) \<Longrightarrow>
         edit_review e r rid d =
           Inr (Redirect ''courses'',
                d\<lparr>Review_objects :=
                    map (\<lambda>x. if review_id x = rid then rv\<lparr>review_text := Some t, grade := g\<rparr>
                              else x) (Review_objects d)\<rparr>)"
    using assms i by (simp add: edit_review_def Review_update_def)
  show "delete_review r rid d = Inr (Redirect ''courses'', Review_delete d rv)"
    using assms get_object_or_404_Inr [of "Review_rows_id d rid" rv]
    by (simp add: delete_review_def)
  show "Review_rows_id (Review_delete d rv) rid = []"
    using i by (simp add: Review_rows_id_def Review_delete_def filter_empty_conv)
qed

text \<open>
  Claim C7. When the requester is neither the owner of the row nor staff, the edit and
  delete handlers of students, courses and reviews return a rendered page and the
  database they were given: a POST to an edit handler and any request to a delete handler
  carry the handler's ownership error. A staff requester passes the ownership test on
  every row: delete removes the row, and a POST to an edit handler with a complete, valid
  form writes the submitted fields to it.
\<close>

theorem page_mutation_owner_or_staff_only:
  "(Student_get_id d sid = Inr st \<and> \<not> user_eq (user r) (student_user st) \<and> \<not> is_staff (user r)
      \<longrightarrow> edit_student e r sid d
            = Inr (Render ''edit_student.html'' (Some ErrEditOwnStudent), d)
          \<and> delete_student r sid d
            = Inr (Render ''delete_student.html'' (Some ErrDeleteOwnStudent), d))
   \<and> (Course_get_id d cid = Inr c \<and> \<not> user_eq (user r) (course_user c) \<and> \<not> is_staff (user r)
      \<longrightarrow> edit_course r cid d
            = Inr (Render ''edit_course.html''
                     (if req_method r = ''POST'' then Some ErrEditOwnCourse else None), d)
          \<and> delete_course r cid d
            = Inr (Render ''delete_course.html'' (Some ErrDeleteOwnCourse), d))
   \<and> (get_one (Review_rows_id d rid) = Inr rv \<and> Review_student_user d rv = Inr owner_pk
        \<and> \<not> user_eq (user r) owner_pk \<and> \<not> is_staff (user r)
      \<longrightarrow> edit_review e r rid d
            = Inr (Render ''edit_review.html''
                     (if req_method r = ''POST'' then Some ErrEditOwnReview else None), d)
          \<and> delete_review r rid d = Inr (Render ''reviews.html'' (Some ErrDeleteOwnReview), d))
   \<and> (is_staff (user r) \<and> Student_get_id d sid = Inr st
      \<longrightarrow> delete_student r sid d = Inr (Redirect ''students'', Student_delete d st)
          \<and> Student_get_id (Student_delete d st) sid = Inl DoesNotExist
          \<and> (req_method r = ''POST'' \<and> POST r ''first_name'' = Some f
               \<and> POST r ''last_name'' = Some l \<and> POST r ''date_of_receipt'' = Some str
               \<and> strptime e str = Some dt \<and> dt \<le> today e
             \<longrightarrow> edit_student e r sid d =
                   Inr (Redirect ''students'',
                        d\<lparr>Student_objects :=
                            map (\<lambda>x. if student_id x = sid
                                      then st\<lparr>first_name := f, last_name := l,
                                              date_of_receipt := dt\<rparr>
                                      else x) (Student_objects d)\<rparr>)))
   \<and> (is_staff (user r) \<and> Course_get_id d cid = Inr c
      \<longrightarrow> delete_course r cid d = Inr (Redirect ''courses'', Course_delete d c)
          \<and> Course_get_id (Course_delete d c) cid = Inl DoesNotExist
          \<and> (req_method r = ''POST'' \<and> POST r ''title'' = Some t
               \<and> POST r ''description'' = Some ds
             \<longrightarrow> edit_course r cid d =
                   Inr (Redirect ''courses'',
                        d\<lparr>Course_objects :=
                            map (\<lambda>x. if course_id x = cid
                                      then c\<lparr>title := t, description := ds\<rparr> else x)
                              (Course_objects d)\<rparr>)))
   \<and> (is_staff (user r) \<and> get_one (Review_rows_id d rid) = Inr rv
        \<and> Review_student_user d rv = Inr owner_pk
      \<longrightarrow> delete_review r rid d = Inr (Redirect ''courses'', Review_delete d rv)
          \<and> Review_rows_id (Review_delete d rv) rid = []
          \<and> (req_method r = ''POST'' \<and> ReviewForm_clean e (POST r) = Some (body, g)
             \<longrightarrow> edit_review e r rid d =
                   Inr (Redirect ''courses'',
                        d\<lparr>Review_objects :=
                            map (\<lambda>x. if review_id x = rid
                                      then rv\<lparr>review_text := Some body, grade := g\<rparr> else x)
                              (Review_objects d)\<rparr>)))"
proof (intro conjI impI; (elim conjE)?)
  assume h: "Student_get_id d sid = Inr st" "\<not> user_eq (user r) (student_user st)"
    "\<not> is_staff (user r)"
  from h show "edit_student e r sid d
      = Inr (Render ''edit_student.html'' (Some ErrEditOwnStudent), d)"
    by (rule non_owner_student)
  from h show "delete_student r sid d
      = Inr (Render ''delete_student.html'' (Some ErrDeleteOwnStudent), d)"
    by (rule non_owner_student)
next
  assume h: "Course_get_id d cid = Inr c" "\<not> user_eq (user r) (course_user c)"
    "\<not> is_staff (user r)"
  from h show "edit_course r cid d
      = Inr (Render ''edit_course.html''
               (if req_method r = ''POST'' then Some ErrEditOwnCourse else None), d)"
    using non_owner_course(1,2) [of d cid c r] by simp
  from h show "delete_course r cid d
      = Inr (Render ''delete_course.html'' (Some ErrDeleteOwnCourse), d)"
    by (rule non_owner_course)
next
  assume h: "get_one (Review_rows_id d rid) = Inr rv" "Review_student_user d rv = Inr owner_pk"
    "\<not> user_eq (user r) owner_pk" "\<not> is_staff (user r)"
  from h show "edit_review e r rid d
      = Inr (Render ''edit_review.html''
               (if req_method r = ''POST'' then Some ErrEditOwnReview else None), d)"
    using non_owner_review(1,2) [of d rid rv owner_pk r e] by simp
  from h show "delete_review r rid d = Inr (Render ''reviews.html'' (Some ErrDeleteOwnReview), d)"
    by (rule non_owner_review)
next
  assume h: "is_staff (user r)" "Student_get_id d sid = Inr st"
  from h show "delete_student r sid d = Inr (Redirect ''students'', Student_delete d st)"
    by (rule staff_student)
  from h show "Student_get_id (Student_delete d st) sid = Inl DoesNotExist"
    by (rule staff_student)
  assume "req_method r = ''POST''" "POST r ''first_name'' = Some f"
    "POST r ''last_name'' = Some l" "POST r ''date_of_receipt'' = Some str"
    "strptime e str = Some dt" "dt \<le> today e"
  with h show "edit_student e r sid d =
      Inr (Redirect ''students'',
           d\<lparr>Student_objects :=
               map (\<lambda>x. if student_id x = sid
                         then st\<lparr>first_name := f, last_name := l, date_of_receipt := dt\<rparr>
                         else x) (Student_objects d)\<rparr>)"
    by (rule staff_student)
next
  assume h: "is_staff (user r)" "Course_get_id d cid = Inr c"
  from h show "delete_course r cid d = Inr (Redirect ''courses'', Course_delete d c)"
    by (rule staff_course)
  from h show "Course_get_id (Course_delete d c) cid = Inl DoesNotExist"
    by (rule staff_course)
  assume "req_method r = ''POST''" "POST r ''title'' = Some t" "POST r ''description'' = Some ds"
  with h show "edit_course r cid d =
      Inr (Redirect ''courses'',
           d\<lparr>Course_objects :=
               map (\<lambda>x. if course_id x = cid then c\<lparr>title := t, description := ds\<rparr> else x)
                 (Course_objects d)\<rparr>)"
    by (rule staff_course)
next
  assume h: "is_staff (user r)" "get_one (Review_rows_id d rid) = Inr rv"
    "Review_student_user d rv = Inr owner_pk"
  from h show "delete_review r rid d = Inr (Redirect ''courses'', Review_delete d rv)"
    by (rule staff_review)
  from h show "Review_rows_id (Review_delete d rv) rid = []"
    by (rule staff_review)
  assume "req_method r = ''POST''" "ReviewForm_clean e (POST r) = Some (body, g)"
  with h show "edit_review e r rid d =
      Inr (Redirect ''courses'',
           d\<lparr>Review_objects :=
               map (\<lambda>x. if review_id x = rid
                         then rv\<lparr>review_text := Some body, grade := g\<rparr> else x)
                 (Review_objects d)\<rparr>)"
    by (rule staff_review)
qed

theorem page_mutation_owner_or_staff_only_witness:
  "edit_student example_env \<lparr>req_method = ''POST'', user = bob, POST = example_form\<rparr> 20
     example_db = Inr (Render ''edit_student.html'' (Some ErrEditOwnStudent), example_db)
   \<and> edit_course \<lparr>req_method = ''POST'', user = bob, POST = example_form\<rparr> 10 example_db
       = Inr (Render ''edit_course.html'' (Some ErrEditOwnCourse), example_db)
   \<and> delete_review \<lparr>req_method = ''POST'', user = bob, POST = example_form\<rparr> 30 example_db
       = Inr (Render ''reviews.html'' (Some ErrDeleteOwnReview), example_db)
   \<and> delete_student \<lparr>req_method = ''POST'', user = carol, POST = example_form\<rparr> 20 example_db
       = Inr (Redirect ''students'',
              \<lparr>Course_objects = [example_course], Student_objects = [],
               CourseToStudent_objects = [], Review_objects = []\<rparr>)
   \<and> edit_course \<lparr>req_method = ''POST'', user = carol, POST = example_form\<rparr> 10 example_db
       = Inr (Redirect ''courses'',
              example_db\<lparr>Course_objects :=
                [example_course\<lparr>title := ''New Course'',
                                description := ''This is a new course.''\<rparr>]\<rparr>)
   \<and> edit_review example_env \<lparr>req_method = ''POST'', user = carol, POST = example_form\<rparr> 30
        example_db
       = Inr (Redirect ''courses'',
              example_db\<lparr>Review_objects :=
                [example_review\<lparr>review_text := Some ''New review!'', grade := 4\<rparr>]\<rparr>)"
proof -
  let ?rb = "\<lparr>req_method = ''POST'', user = bob, POST = example_form\<rparr>"
  let ?rc = "\<lparr>req_method = ''POST'', user = carol, POST = example_form\<rparr>"
  have rows: "Student_get_id example_db 20 = Inr example_student"
    "Course_get_id example_db 10 = Inr example_course"
    "get_one (Review_rows_id example_db 30) = Inr example_review"
    "Review_student_user example_db example_review = Inr 1"
    by (simp_all add: Student_get_id_def Course_get_id_def Review_rows_id_def
          Review_student_user_def example_db_def example_student_def example_course_def
          example_review_def)
  have hb: "\<not> user_eq (user ?rb) (student_user example_student)"
    "\<not> user_eq (user ?rb) (course_user example_course)" "\<not> user_eq (user ?rb) 1"
    "\<not> is_staff (user ?rb)" "req_method ?rb = ''POST''"
    by (simp_all add: bob_def example_student_def example_course_def)
  have hc: "is_staff (user ?rc)" "req_method ?rc = ''POST''"
    "POST ?rc ''title'' = Some ''New Course''"
    "POST ?rc ''description'' = Some ''This is a new course.''"
    by (simp_all add: carol_def example_form_def)
  have hf: "ReviewForm_clean example_env (POST ?rc) = Some (''New review!'', 4)"
    by (simp add: ReviewForm_clean_def review_text_formfield_clean_def grade_formfield_clean_def
          MinMaxIntegerField_formfield_def MinMaxIntegerField_validate_def example_form_def
          example_env_def example_parse_int_def)
  note b = page_mutation_owner_or_staff_only
    [where r = ?rb and d = example_db and e = example_env and sid = 20
       and st = example_student and cid = 10 and c = example_course and rid = 30
       and rv = example_review and owner_pk = 1]
  note c = page_mutation_owner_or_staff_only
    [where r = ?rc and d = example_db and e = example_env and sid = 20
       and st = example_student and cid = 10 and c = example_course and rid = 30
       and rv = example_review and owner_pk = 1 and t = "''New Course''"
       and ds = "''This is a new course.''" and body = "''New review!''" and g = 4]
  from rows hb b
  have 1: "edit_student example_env ?rb 20 example_db
             = Inr (Render ''edit_student.html'' (Some ErrEditOwnStudent), example_db)"
    and 2: "edit_course ?rb 10 example_db
             = Inr (Render ''edit_course.html'' (Some ErrEditOwnCourse), example_db)"
    and 3: "delete_review ?rb 30 example_db
             = Inr (Render ''reviews.html'' (Some ErrDeleteOwnReview), example_db)"
    by simp_all
  from rows hc c
  have "delete_student ?rc 20 example_db
          = Inr (Redirect ''students'', Student_delete example_db example_student)"
    by blast
  then have 4: "delete_student ?rc 20 example_db
      = Inr (Redirect ''students'',
             \<lparr>Course_objects = [example_course], Student_objects = [],
              CourseToStudent_objects = [], Review_objects = []\<rparr>)"
    by (simp add: Student_delete_def example_db_def example_student_def example_review_def)
  from rows hc c
  have "edit_course ?rc 10 example_db =
          Inr (Redirect ''courses'',
               example_db\<lparr>Course_objects :=
                 map (\<lambda>x. if course_id x = 10
                           then example_course\<lparr>title := ''New Course'',
                                               description := ''This is a new course.''\<rparr>
                           else x) (Course_objects example_db)\<rparr>)"
    by blast
  then have 5: "edit_course ?rc 10 example_db
      = Inr (Redirect ''courses'',
             example_db\<lparr>Course_objects :=
               [example_course\<lparr>title := ''New Course'',
                               description := ''This is a new course.''\<rparr>]\<rparr>)"
    by (simp add: example_db_def example_course_def)
  from rows hc hf c
  have "edit_review example_env ?rc 30 example_db =
          Inr (Redirect ''courses'',
               example_db\<lparr>Review_objects :=
                 map (\<lambda>x. if review_id x = 30
                           then example_review\<lparr>review_text := Some ''New review!'', grade := 4\<rparr>
                           else x) (Review_objects example_db)\<rparr>)"
    by blast
  then have 6: "edit_review example_env ?rc 30 example_db
      = Inr (Redirect ''courses'',
             example_db\<lparr>Review_objects :=
               [example_review\<lparr>review_text := Some ''New review!'', grade := 4\<rparr>]\<rparr>)"
    by (simp add: example_db_def example_review_def)
  from 1 2 3 4 5 6 show ?thesis by blast
qed

subsection \<open>Delete handlers and the request method\<close>

text \<open>
  Claim C9. \<open>delete_student\<close>, \<open>delete_course\<close> and \<open>delete_review\<close> do not read the
  request method: the result is the same for every method. For the row's owner or a staff
  user the row is deleted and the answer is a redirect to a list page: \<open>students\<close> for
  a student, \<open>courses\<close> for a course and also for a review.
\<close>

theorem delete_handlers_ignore_method:
  "delete_student (r\<lparr>req_method := m\<rparr>) sid d = delete_student r sid d
   \<and> delete_course (r\<lparr>req_method := m\<rparr>) cid d = delete_course r cid d
   \<and> delete_review (r\<lparr>req_method := m\<rparr>) rid d = delete_review r rid d
   \<and> (Student_get_id d sid = Inr st
        \<and> (user_eq (user r) (student_user st) \<or> is_staff (user r)) \<longrightarrow>
        delete_student (r\<lparr>req_method := m\<rparr>) sid d
          = Inr (Redirect ''students'', Student_delete d st)
        \<and> Student_get_id (Student_delete d st) sid = Inl DoesNotExist)
   \<and> (Course_get_id d cid = Inr c
        \<and> (user_eq (user r) (course_user c) \<or> is_staff (user r)) \<longrightarrow>
        delete_course (r\<lparr>req_method := m\<rparr>) cid d
          = Inr (Redirect ''courses'', Course_delete d c)
        \<and> Course_get_id (Course_delete d c) cid = Inl DoesNotExist)
   \<and> (get_one (Review_rows_id d rid) = Inr rv \<and> Review_student_user d rv = Inr owner_pk
        \<and> (user_eq (user r) owner_pk \<or> is_staff (user r)) \<longrightarrow>
        delete_review (r\<lparr>req_method := m\<rparr>) rid d
          = Inr (Redirect ''courses'', Review_delete d rv)
        \<and> Review_rows_id (Review_delete d rv) rid = [])"
proof (intro conjI impI; (elim conjE)?)
  show "delete_student (r\<lparr>req_method := m\<rparr>) sid d = delete_student r sid d"
    by (simp add: delete_student_def cong: sum.case_cong)
  show "delete_course (r\<lparr>req_method := m\<rparr>) cid d = delete_course r cid d"
    by (simp add: delete_course_def cong: sum.case_cong)
  show "delete_review (r\<lparr>req_method := m\<rparr>) rid d = delete_review r rid d"
    by (simp add: delete_review_def cong: sum.case_cong)
next
  assume h: "Student_get_id d sid = Inr st"
    "user_eq (user r) (student_user st) \<or> is_staff (user r)"
  then show "delete_student (r\<lparr>req_method := m\<rparr>) sid d
      = Inr (Redirect ''students'', Student_delete d st)"
    by (simp add: delete_student_def)
  from h(1) have "student_id st = sid"
    by (simp add: Student_get_id_Inr)
  then show "Student_get_id (Student_delete d st) sid = Inl DoesNotExist"
    by (simp add: Student_get_id_def Student_delete_def get_one_DoesNotExist filter_empty_conv)
next
  assume h: "Course_get_id d cid = Inr c"
    "user_eq (user r) (course_user c) \<or> is_staff (user r)"
  then show "delete_course (r\<lparr>req_method := m\<rparr>) cid d
      = Inr (Redirect ''courses'', Course_delete d c)"
    by (simp add: delete_course_def)
  from h(1) have "course_id c = cid"
    by (simp add: Course_get_id_Inr)
  then show "Course_get_id (Course_delete d c) cid = Inl DoesNotExist"
    by (simp add: Course_get_id_def Course_delete_def get_one_DoesNotExist filter_empty_conv)
next
  assume h: "get_one (Review_rows_id d rid) = Inr rv" "Review_student_user d rv = Inr owner_pk"
    "user_eq (user r) owner_pk \<or> is_staff (user r)"
  then show "delete_review (r\<lparr>req_method := m\<rparr>) rid d
      = Inr (Redirect ''courses'', Review_delete d rv)"
    using get_object_or_404_Inr [of "Review_rows_id d rid" rv]
    by (simp add: delete_review_def)
  from h(1) have "review_id rv = rid"
    by (simp add: Review_rows_id_Inr)
  then show "Review_rows_id (Review_delete d rv) rid = []"
    by (simp add: Review_rows_id_def Review_delete_def filter_empty_conv)
qed

theorem delete_handlers_ignore_method_witness:
  "delete_student \<lparr>req_method = ''GET'', user = alice, POST = Map.empty\<rparr> 20 example_db
     = Inr (Redirect ''students'',
            \<lparr>Course_objects = [example_course], Student_objects = [],
             CourseToStudent_objects = [], Review_objects = []\<rparr>)
   \<and> delete_course \<lparr>req_method = ''GET'', user = alice, POST = Map.empty\<rparr> 10 example_db
     = Inr (Redirect ''courses'',
            \<lparr>Course_objects = [], Student_objects = [example_student],
             CourseToStudent_objects = [], Review_objects = []\<rparr>)
   \<and> delete_review \<lparr>req_method = ''GET'', user = alice, POST = Map.empty\<rparr> 30 example_db
     = Inr (Redirect ''courses'', example_db\<lparr>Review_objects := []\<rparr>)"
proof -
  let ?r = "\<lparr>req_method = ''POST'', user = alice, POST = Map.empty\<rparr>"
  have g: "?r\<lparr>req_method := ''GET''\<rparr> = \<lparr>req_method = ''GET'', user = alice, POST = Map.empty\<rparr>"
    by simp
  have rows: "Student_get_id example_db 20 = Inr example_student"
    "Course_get_id example_db 10 = Inr example_course"
    "get_one (Review_rows_id example_db 30) = Inr example_review"
    "Review_student_user example_db example_review = Inr 1"
    by (simp_all add: Student_get_id_def Course_get_id_def Review_rows_id_def
          Review_student_user_def example_db_def example_student_def example_course_def
          example_review_def)
  have own: "user_eq (user ?r) (student_user example_student)"
    "user_eq (user ?r) (course_user example_course)" "user_eq (user ?r) 1"
    by (simp_all add: alice_def example_student_def example_course_def)
  from rows own delete_handlers_ignore_method
    [where r = ?r and m = "''GET''" and d = example_db and sid = 20 and st = example_student
       and cid = 10 and c = example_course and rid = 30 and rv = example_review
       and owner_pk = 1]
  have "delete_student (?r\<lparr>req_method := ''GET''\<rparr>) 20 example_db
          = Inr (Redirect ''students'', Student_delete example_db example_student)
        \<and> delete_course (?r\<lparr>req_method := ''GET''\<rparr>) 10 example_db
          = Inr (Redirect ''courses'', Course_delete example_db example_course)
        \<and> delete_review (?r\<lparr>req_method := ''GET''\<rparr>) 30 example_db
          = Inr (Redirect ''courses'', Review_delete example_db example_review)"
    by blast
  then show ?thesis
    unfolding g
    by (simp add: Student_delete_def Course_delete_def Review_delete_def example_db_def
          example_student_def example_course_def example_review_def)
qed

subsection \<open>Unenrolling without a session\<close>

text \<open>
  Claim C10. \<open>enroll_course\<close> is wrapped in \<open>login_required\<close> and sends an unauthenticated
  requester to the login page, the database untouched. \<open>unenroll_course\<close> has no such
  guard: for an unauthenticated requester it always ends in an unhandled exception, never
  in a redirect or a rendered page; the lookup of the requester's Student row raises
  \<open>TypeError\<close>, and that is the handler's outcome whenever the course exists.
\<close>

theorem unenroll_course_unauthenticated_raises:
  "\<not> is_authenticated (user r) \<longrightarrow>
     Student_get_user d (user r) = Inl TypeError
     \<and> (\<exists>x. unenroll_course r cid d = Inl x
             \<and> x \<in> {TypeError, DoesNotExist, MultipleObjectsReturned})
     \<and> (Course_get_id d cid = Inr c \<longrightarrow> unenroll_course r cid d = Inl TypeError)
     \<and> enroll_course e r cid d = Inr (RedirectToLogin None, d)"
proof (intro impI)
  assume "\<not> is_authenticated (user r)"
  then have u: "user r = AnonymousUser"
    by (cases "user r") simp_all
  then have s: "Student_get_user d (user r) = Inl TypeError"
    by (simp add: Student_get_user_def)
  have x: "\<exists>x. unenroll_course r cid d = Inl x
             \<and> x \<in> {TypeError, DoesNotExist, MultipleObjectsReturned}"
  proof (cases "Course_get_id d cid")
    case (Inl x)
    then have "x = DoesNotExist \<or> x = MultipleObjectsReturned"
      by (auto simp: Course_get_id_def dest: get_one_Inl)
    with Inl show ?thesis
      by (auto simp: unenroll_course_def)
  next
    case (Inr course_obj)
    with s show ?thesis
      by (simp add: unenroll_course_def)
  qed
  have y: "Course_get_id d cid = Inr c \<longrightarrow> unenroll_course r cid d = Inl TypeError"
    using s by (simp add: unenroll_course_def)
  have z: "enroll_course e r cid d = Inr (RedirectToLogin None, d)"
    using u by (simp add: enroll_course_def login_required_def)
  from s x y z show "Student_get_user d (user r) = Inl TypeError
     \<and> (\<exists>x. unenroll_course r cid d = Inl x
             \<and> x \<in> {TypeError, DoesNotExist, MultipleObjectsReturned})
     \<and> (Course_get_id d cid = Inr c \<longrightarrow> unenroll_course r cid d = Inl TypeError)
     \<and> enroll_course e r cid d = Inr (RedirectToLogin None, d)"
    by blast
qed

theorem unenroll_course_unauthenticated_raises_witness:
  "\<not> is_authenticated (user \<lparr>req_method = ''POST'', user = AnonymousUser, POST = Map.empty\<rparr>)
   \<and> Course_get_id enrolled_db 10 = Inr example_course
   \<and> unenroll_course \<lparr>req_method = ''POST'', user = AnonymousUser, POST = Map.empty\<rparr> 10
        enrolled_db = Inl TypeError
   \<and> enroll_course example_env \<lparr>req_method = ''POST'', user = AnonymousUser, POST = Map.empty\<rparr>
        10 enrolled_db = Inr (RedirectToLogin None, enrolled_db)"
proof -
  let ?r = "\<lparr>req_method = ''POST'', user = AnonymousUser, POST = Map.empty\<rparr>"
  have h1: "\<not> is_authenticated (user ?r)"
    by simp
  have h2: "Course_get_id enrolled_db 10 = Inr example_course"
    by (simp add: Course_get_id_def enrolled_db_def example_db_def example_course_def)
  from h1 h2 unenroll_course_unauthenticated_raises
    [where r = ?r and d = enrolled_db and cid = 10 and c = example_course and e = example_env]
  show ?thesis by blast
qed

subsection \<open>The owner stamped by the REST create routes\<close>

lemma validate_fields_cong:
  "(\<forall>k \<in> set names. data k = data' k) \<Longrightarrow>
     validate_fields e names data = validate_fields e names data'"
proof (induction names)
  case Nil
  show ?case by simp
next
  case (Cons a names)
  then have "data a = data' a"
    and "validate_fields e names data = validate_fields e names data'"
    by simp_all
  then show ?case
    by (simp only: validate_fields.simps)
qed

lemma user_not_writable:
  "''user'' \<notin> set (writable_fields CourseSerializer_fields)"
  "''user'' \<notin> set (writable_fields StudentSerializer_fields)"
  by (simp_all add: writable_fields_def CourseSerializer_fields_def StudentSerializer_fields_def)

lemma validate_fields_ignores_user:
  assumes "\<forall>k. k \<noteq> ''user'' \<longrightarrow> data k = data' k"
  shows "validate_fields e (writable_fields CourseSerializer_fields) data
           = validate_fields e (writable_fields CourseSerializer_fields) data'"
    and "validate_fields e (writable_fields StudentSerializer_fields) data
           = validate_fields e (writable_fields StudentSerializer_fields) data'"
proof -
  have eq: "data k = data' k" if "k \<in> set names" and "''user'' \<notin> set names" for k names
  proof -
    from that have "k \<noteq> ''user''"
      by (cases "k = ''user''") simp_all
    with assms show ?thesis
      by simp
  qed
  have "\<forall>k \<in> set (writable_fields CourseSerializer_fields). data k = data' k"
    using eq [OF _ user_not_writable(1)] by (intro ballI)
  then show "validate_fields e (writable_fields CourseSerializer_fields) data
           = validate_fields e (writable_fields CourseSerializer_fields) data'"
    by (rule validate_fields_cong)
  have "\<forall>k \<in> set (writable_fields StudentSerializer_fields). data k = data' k"
    using eq [OF _ user_not_writable(2)] by (intro ballI)
  then show "validate_fields e (writable_fields StudentSerializer_fields) data
           = validate_fields e (writable_fields StudentSerializer_fields) data'"
    by (rule validate_fields_cong)
qed

lemma assign_user_Inr: "assign_user u = Inr p \<Longrightarrow> user_eq u p"
  by (cases u) auto

lemma Course_create_owner:
  assumes "Course_create e d attrs = Inr (row, d')" and "attrs ''user'' = Some (UserVal u)"
  shows "user_eq u (course_user row) \<and> Course_objects d' = Course_objects d @ [row]"
  using assms
  by (auto simp: Course_create_def Let_def split: sum.splits option.splits pyval.splits
           dest: assign_user_Inr)

lemma Student_create_owner:
  assumes "Student_create e d attrs = Inr (row, d')" and "attrs ''user'' = Some (UserVal u)"
  shows "user_eq u (student_user row) \<and> Student_objects d' = Student_objects d @ [row]"
  using assms
  by (auto simp: Student_create_def Let_def split: sum.splits option.splits pyval.splits
           dest: assign_user_Inr)

lemma CourseViewSet_create_owner:
  assumes "CourseViewSet_create e r data d = Inr (Created_201 row, d')"
  shows "user_eq (user r) (course_user row) \<and> Course_objects d' = Course_objects d @ [row]"
proof -
  from assms obtain validated_data where
    "Course_create e d (validated_data ++ [''user'' \<mapsto> UserVal (user r)]) = Inr (row, d')"
    by (auto simp: CourseViewSet_create_def split: if_splits option.splits sum.splits)
  moreover have "(validated_data ++ [''user'' \<mapsto> UserVal (user r)]) ''user''
      = Some (UserVal (user r))"
    by simp
  ultimately show ?thesis
    by (rule Course_create_owner)
qed

lemma StudentViewSet_create_owner:
  assumes "StudentViewSet_create e r data d = Inr (Created_201 row, d')"
  shows "user_eq (user r) (student_user row) \<and> Student_objects d' = Student_objects d @ [row]"
proof -
  from assms obtain validated_data where
    "Student_create e d (validated_data ++ [''user'' \<mapsto> UserVal (user r)]) = Inr (row, d')"
    by (auto simp: StudentViewSet_create_def split: if_splits option.splits sum.splits)
  moreover have "(validated_data ++ [''user'' \<mapsto> UserVal (user r)]) ''user''
      = Some (UserVal (user r))"
    by simp
  ultimately show ?thesis
    by (rule Student_create_owner)
qed

text \<open>
  Claim C8. A row stored by the REST create route of Course or Student is owned by the
  requesting user, who is authenticated; and two payloads that differ only in the
  \<open>user\<close> entry get the same answer and leave the same database.
\<close>

theorem rest_create_stamps_owner:
  "(CourseViewSet_create e r data d = Inr (Created_201 crow, d1) \<longrightarrow>
      is_authenticated (user r) \<and> user_eq (user r) (course_user crow)
      \<and> Course_objects d1 = Course_objects d @ [crow])
   \<and> (StudentViewSet_create e r data d = Inr (Created_201 srow, d2) \<longrightarrow>
      is_authenticated (user r) \<and> user_eq (user r) (student_user srow)
      \<and> Student_objects d2 = Student_objects d @ [srow])
   \<and> ((\<forall>k. k \<noteq> ''user'' \<longrightarrow> data k = data' k) \<longrightarrow>
        CourseViewSet_create e r data d = CourseViewSet_create e r data' d
        \<and> StudentViewSet_create e r data d = StudentViewSet_create e r data' d)"
proof (intro conjI impI)
  assume h: "CourseViewSet_create e r data d = Inr (Created_201 crow, d1)"
  from CourseViewSet_create_owner [OF h]
  show "user_eq (user r) (course_user crow)"
    and "Course_objects d1 = Course_objects d @ [crow]"
    by blast+
  from h show "is_authenticated (user r)"
    by (auto simp: CourseViewSet_create_def has_permission_def split: if_splits)
next
  assume h: "StudentViewSet_create e r data d = Inr (Created_201 srow, d2)"
  from StudentViewSet_create_owner [OF h]
  show "user_eq (user r) (student_user srow)"
    and "Student_objects d2 = Student_objects d @ [srow]"
    by blast+
  from h show "is_authenticated (user r)"
    by (auto simp: StudentViewSet_create_def has_permission_def split: if_splits)
next
  assume h: "\<forall>k. k \<noteq> ''user'' \<longrightarrow> data k = data' k"
  from h have v: "validate_fields e (writable_fields CourseSerializer_fields) data
      = validate_fields e (writable_fields CourseSerializer_fields) data'"
    by (rule validate_fields_ignores_user(1))
  show "CourseViewSet_create e r data d = CourseViewSet_create e r data' d"
    by (simp only: CourseViewSet_create_def v)
  from h have w: "validate_fields e (writable_fields StudentSerializer_fields) data
      = validate_fields e (writable_fields StudentSerializer_fields) data'"
    by (rule validate_fields_ignores_user(2))
  show "StudentViewSet_create e r data d = StudentViewSet_create e r data' d"
    by (simp only: StudentViewSet_create_def w)
qed

theorem rest_create_stamps_owner_witness:
  "CourseViewSet_create example_env \<lparr>req_method = ''POST'', user = bob, POST = Map.empty\<rparr>
     (course_payload(''user'' \<mapsto> ''alice'')) example_db
     = Inr (Created_201
              \<lparr>course_id = 100, course_user = 2, title = ''Course10'', description = ''course10''\<rparr>,
            example_db\<lparr>Course_objects := [example_course,
              \<lparr>course_id = 100, course_user = 2, title = ''Course10'',
               description = ''course10''\<rparr>]\<rparr>)
   \<and> CourseViewSet_create example_env \<lparr>req_method = ''POST'', user = bob, POST = Map.empty\<rparr>
       course_payload example_db
     = CourseViewSet_create example_env \<lparr>req_method = ''POST'', user = bob, POST = Map.empty\<rparr>
         (course_payload(''user'' \<mapsto> ''alice'')) example_db
   \<and> StudentViewSet_create example_env \<lparr>req_method = ''POST'', user = bob, POST = Map.empty\<rparr>
       (student_payload(''user'' \<mapsto> ''alice'')) example_db
     = Inr (Created_201
              \<lparr>student_id = 100, student_user = 2, first_name = ''Student 1'',
               last_name = ''Noskov'', date_of_receipt = (2024, 5, 1)\<rparr>,
            example_db\<lparr>Student_objects := [example_student,
              \<lparr>student_id = 100, student_user = 2, first_name = ''Student 1'',
               last_name = ''Noskov'', date_of_receipt = (2024, 5, 1)\<rparr>]\<rparr>)
   \<and> user_eq bob 2"
proof -
  let ?r = "\<lparr>req_method = ''POST'', user = bob, POST = Map.empty\<rparr>"
  let ?crow = "\<lparr>course_id = 100, course_user = 2, title = ''Course10'', description = ''course10''\<rparr>"
  let ?srow = "\<lparr>student_id = 100, student_user = 2, first_name = ''Student 1'',
               last_name = ''Noskov'', date_of_receipt = (2024, 5, 1)\<rparr>"
  have c: "CourseViewSet_create example_env ?r (course_payload(''user'' \<mapsto> ''alice'')) example_db
      = Inr (Created_201 ?crow, example_db\<lparr>Course_objects := [example_course, ?crow]\<rparr>)"
    by (simp add: CourseViewSet_create_def has_permission_def writable_fields_def
          CourseSerializer_fields_def serializer_field_def serializer_text_def Course_create_def
          course_payload_def example_env_def example_db_def bob_def Let_def)
  have s: "StudentViewSet_create example_env ?r (student_payload(''user'' \<mapsto> ''alice'')) example_db
      = Inr (Created_201 ?srow, example_db\<lparr>Student_objects := [example_student, ?srow]\<rparr>)"
    by (simp add: StudentViewSet_create_def has_permission_def writable_fields_def
          StudentSerializer_fields_def serializer_field_def serializer_text_def
          serializer_date_of_receipt_def date_of_receipt_validators_def validate_future_date_def
          Student_create_def student_payload_def example_env_def example_parse_date_def
          example_db_def bob_def Let_def)
  have k: "\<forall>k. k \<noteq> ''user'' \<longrightarrow> course_payload k = (course_payload(''user'' \<mapsto> ''alice'')) k"
    by simp
  from c rest_create_stamps_owner
    [where e = example_env and r = ?r and data = "course_payload(''user'' \<mapsto> ''alice'')"
       and d = example_db and crow = ?crow
       and ?d1.0 = "example_db\<lparr>Course_objects := [example_course, ?crow]\<rparr>"]
  have 1: "user_eq (user ?r) (course_user ?crow)" by blast
  from k rest_create_stamps_owner
    [where e = example_env and r = ?r and data = course_payload
       and data' = "course_payload(''user'' \<mapsto> ''alice'')" and d = example_db]
  have 2: "CourseViewSet_create example_env ?r course_payload example_db
      = CourseViewSet_create example_env ?r (course_payload(''user'' \<mapsto> ''alice'')) example_db"
    by blast
  from 1 have 3: "user_eq bob 2" by simp
  show ?thesis
    by (intro conjI) (rule c, rule 2, rule s, rule 3)
qed

subsection \<open>The REST permission class\<close>

lemma safe_method_needs_authentication_only:
  "req_method r \<in> set safe_methods \<Longrightarrow>
     check_detail_access r target
       = Inr (if is_authenticated (user r) then Allowed else NotAuthenticated_401_or_403)"
  by (simp add: check_detail_access_def has_permission_def has_object_permission_def)

lemma owned_object_denied_403:
  assumes "is_authenticated (user r)" and "req_method r \<notin> set safe_methods"
    and "\<not> is_staff (user r)" and "target_user target = Inr owner_pk"
    and "\<not> user_eq (user r) owner_pk"
  shows "check_detail_access r target = Inr PermissionDenied_403"
  using assms
  by (simp add: check_detail_access_def has_permission_def has_object_permission_def)

lemma ownerless_object_raises:
  assumes "is_authenticated (user r)" and "req_method r \<notin> set safe_methods"
    and "\<not> is_staff (user r)"
  shows "check_detail_access r (ReviewObj rv) = Inl AttributeError"
    and "check_detail_access r (CourseToStudentObj l) = Inl AttributeError"
  using assms
  by (simp_all add: check_detail_access_def has_permission_def has_object_permission_def)

text \<open>
  Claim C1 at the inputs where the code departs from it. Bob is authenticated, not staff,
  and owns nothing. His PUT or DELETE on Alice's course or student is answered 403, and a
  GET needs authentication only, as the claim says. His PUT or DELETE on a Review or a
  CourseToStudent is not answered 403: the permission class reads \<open>target_object.user\<close>,
  which these two models do not have, and raises \<open>AttributeError\<close>. The same happens to
  Alice on her own review.
\<close>

theorem rest_update_of_review_raises:
  "check_detail_access \<lparr>req_method = ''PUT'', user = bob, POST = Map.empty\<rparr>
     (ReviewObj example_review) = Inl AttributeError
   \<and> check_detail_access \<lparr>req_method = ''DELETE'', user = bob, POST = Map.empty\<rparr>
       (ReviewObj example_review) = Inl AttributeError
   \<and> check_detail_access \<lparr>req_method = ''DELETE'', user = bob, POST = Map.empty\<rparr>
       (CourseToStudentObj example_enrollment) = Inl AttributeError
   \<and> check_detail_access \<lparr>req_method = ''PUT'', user = alice, POST = Map.empty\<rparr>
       (ReviewObj example_review) = Inl AttributeError
   \<and> check_detail_access \<lparr>req_method = ''PUT'', user = bob, POST = Map.empty\<rparr>
       (CourseObj example_course) = Inr PermissionDenied_403
   \<and> check_detail_access \<lparr>req_method = ''DELETE'', user = bob, POST = Map.empty\<rparr>
       (StudentObj example_student) = Inr PermissionDenied_403
   \<and> check_detail_access \<lparr>req_method = ''GET'', user = bob, POST = Map.empty\<rparr>
       (ReviewObj example_review) = Inr Allowed"
  by (simp add: check_detail_access_def has_permission_def has_object_permission_def
        safe_methods_def bob_def alice_def example_course_def example_student_def)

subsection \<open>The grade of a review\<close>

lemma grade_formfield_clean_bounds:
  "grade_formfield_clean e v = Some g \<Longrightarrow> 1 \<le> g \<and> g \<le> 5"
  by (auto simp: grade_formfield_clean_def MinMaxIntegerField_formfield_def
           split: option.splits if_splits)

lemma ReviewForm_clean_bounds:
  "ReviewForm_clean e data = Some (body, g) \<Longrightarrow> 1 \<le> g \<and> g \<le> 5"
  by (auto simp: ReviewForm_clean_def split: option.splits sum.splits
           dest: grade_formfield_clean_bounds)

lemma create_review_rows:
  assumes "create_review e r cid d = Inr (resp, d')" and "x \<in> set (Review_objects d')"
  shows "x \<in> set (Review_objects d) \<or> (1 \<le> grade x \<and> grade x \<le> 5)"
proof -
  from assms(1) consider "d' = d"
    | c s body g where "ReviewForm_clean e (POST r) = Some (body, g)"
        and "d' = Review_create e d c s (Some body) g"
    by (auto simp: create_review_def split: if_splits sum.splits option.splits)
  then show ?thesis
  proof cases
    case 1
    with assms(2) show ?thesis by simp
  next
    case 2
    from 2(1) have "1 \<le> g \<and> g \<le> 5"
      by (rule ReviewForm_clean_bounds)
    with 2(2) assms(2) show ?thesis
      by (auto simp: Review_create_def)
  qed
qed

lemma edit_review_rows:
  assumes "edit_review e r rid d = Inr (resp, d')" and "x \<in> set (Review_objects d')"
  shows "x \<in> set (Review_objects d) \<or> (1 \<le> grade x \<and> grade x \<le> 5)"
proof -
  from assms(1) consider "d' = d"
    | rv body g where "ReviewForm_clean e (POST r) = Some (body, g)"
        and "d' = Review_update d rv body g"
    by (auto simp: edit_review_def split: if_splits sum.splits option.splits)
  then show ?thesis
  proof cases
    case 1
    with assms(2) show ?thesis by simp
  next
    case 2
    from 2(1) have "1 \<le> g \<and> g \<le> 5"
      by (rule ReviewForm_clean_bounds)
    with 2(2) assms(2) show ?thesis
      by (auto simp: Review_update_def split: if_splits)
  qed
qed

text \<open>
  Claim C2, as stated, has the storage layer reject a grade outside 1 to 5. The field
  declares no validator of its own: model validation accepts the grade 6, and the write
  stores it.
\<close>

theorem grade_storage_validation_counterexample:
  "Review_grade_clean example_env (example_review\<lparr>grade := 6\<rparr>) = Inr ()
   \<and> Review_objects (Review_create example_env example_db 10 20 (Some ''Review 1'') 6)
       = [example_review,
          \<lparr>review_id = 100, review_course = 10, review_student = 20,
           review_text = Some ''Review 1'', grade = 6\<rparr>]"
  by (simp add: Review_grade_clean_def MinMaxIntegerField_validate_def Review_create_def
        example_env_def example_db_def)

text \<open>
  Claim C2, amended. The grade is bounded by the form: the grade field of \<open>ReviewForm\<close>
  accepts an input only when it is an integer from 1 to 5, a form with another grade is
  invalid, and every Review row that \<open>create_review\<close> or \<open>edit_review\<close> writes has its
  grade in that range.
\<close>

theorem review_grade_bounded_by_form:
  "(grade_formfield_clean e v = Some g \<longrightarrow> 1 \<le> g \<and> g \<le> 5)
   \<and> (parse_int e s = Some n \<and> (n < 1 \<or> 5 < n) \<longrightarrow>
        grade_formfield_clean e (Some s) = None
        \<and> ReviewForm_clean e (data(''grade'' \<mapsto> s)) = None)
   \<and> (ReviewForm_clean e data = Some (body, g) \<longrightarrow> 1 \<le> g \<and> g \<le> 5)
   \<and> (create_review e r cid d = Inr (resp, d1) \<longrightarrow>
        (\<forall>x \<in> set (Review_objects d1) - set (Review_objects d). 1 \<le> grade x \<and> grade x \<le> 5))
   \<and> (edit_review e r2 rid d = Inr (resp2, d2) \<longrightarrow>
        (\<forall>x \<in> set (Review_objects d2) - set (Review_objects d). 1 \<le> grade x \<and> grade x \<le> 5))"
proof (intro conjI impI ballI)
  assume "grade_formfield_clean e v = Some g"
  then show "1 \<le> g" and "g \<le> 5"
    by (simp_all add: grade_formfield_clean_bounds)
next
  assume h: "parse_int e s = Some n \<and> (n < 1 \<or> 5 < n)"
  then show c: "grade_formfield_clean e (Some s) = None"
    by (cases "s = []")
       (auto simp: grade_formfield_clean_def MinMaxIntegerField_formfield_def)
  then show "ReviewForm_clean e (data(''grade'' \<mapsto> s)) = None"
    by (simp add: ReviewForm_clean_def split: option.splits)
next
  assume "ReviewForm_clean e data = Some (body, g)"
  then show "1 \<le> g" and "g \<le> 5"
    by (simp_all add: ReviewForm_clean_bounds)
next
  fix x
  assume "create_review e r cid d = Inr (resp, d1)"
    and "x \<in> set (Review_objects d1) - set (Review_objects d)"
  with create_review_rows [of e r cid d resp d1 x]
  show "1 \<le> grade x" and "grade x \<le> 5"
    by simp_all
next
  fix x
  assume "edit_review e r2 rid d = Inr (resp2, d2)"
    and "x \<in> set (Review_objects d2) - set (Review_objects d)"
  with edit_review_rows [of e r2 rid d resp2 d2 x]
  show "1 \<le> grade x" and "grade x \<le> 5"
    by simp_all
qed

theorem review_grade_bounded_by_form_witness:
  "parse_int example_env ''6'' = Some 6
   \<and> grade_formfield_clean example_env (Some ''6'') = None
   \<and> ReviewForm_clean example_env (example_form(''grade'' \<mapsto> ''6'')) = None
   \<and> ReviewForm_clean example_env example_form = Some (''New review!'', 4)
   \<and> create_review example_env \<lparr>req_method = ''POST'', user = alice, POST = example_form\<rparr> 10
        example_db
       = Inr (Redirect ''main'',
              example_db\<lparr>Review_objects := [example_review,
                \<lparr>review_id = 100, review_course = 10, review_student = 20,
                 review_text = Some ''New review!'', grade = 4\<rparr>]\<rparr>)
   \<and> (1::int) \<le> 4 \<and> (4::int) \<le> 5"
proof -
  let ?r = "\<lparr>req_method = ''POST'', user = alice, POST = example_form\<rparr>"
  let ?row = "\<lparr>review_id = 100, review_course = 10, review_student = 20,
                 review_text = Some ''New review!'', grade = 4\<rparr>"
  have h1: "parse_int example_env ''6'' = Some 6 \<and> ((6::int) < 1 \<or> 5 < (6::int))"
    by (simp add: example_env_def example_parse_int_def)
  have h2: "ReviewForm_clean example_env example_form = Some (''New review!'', 4)"
    by (simp add: ReviewForm_clean_def review_text_formfield_clean_def grade_formfield_clean_def
          MinMaxIntegerField_formfield_def MinMaxIntegerField_validate_def example_form_def
          example_env_def example_parse_int_def)
  have h3: "create_review example_env ?r 10 example_db
      = Inr (Redirect ''main'', example_db\<lparr>Review_objects := [example_review, ?row]\<rparr>)"
    using h2
    by (simp add: create_review_def get_object_or_404_def Student_get_user_def Review_create_def
          alice_def example_db_def example_course_def example_student_def example_env_def)
  note t = review_grade_bounded_by_form
    [where e = example_env and s = "''6''" and n = 6 and data = example_form
       and body = "''New review!''" and g = 4 and r = ?r and cid = 10 and d = example_db
       and resp = "Redirect ''main''"
       and ?d1.0 = "example_db\<lparr>Review_objects := [example_review, ?row]\<rparr>"]
  from h1 t have a: "grade_formfield_clean example_env (Some ''6'') = None
      \<and> ReviewForm_clean example_env (example_form(''grade'' \<mapsto> ''6'')) = None"
    by blast
  from h2 t have b: "(1::int) \<le> 4 \<and> (4::int) \<le> 5"
    by blast
  from h1 have c: "parse_int example_env ''6'' = Some 6"
    by blast
  show ?thesis
    using a b c h2 h3 by (intro conjI) blast+
qed

subsection \<open>The date validator\<close>

lemma Student_save_no_ValidationError: "Student_save d i p fn ln dt \<noteq> Inl ValidationError"
  by (simp add: Student_save_def Let_def split: option.splits)

lemma create_student_no_ValidationError: "create_student e r d \<noteq> Inl ValidationError"
proof -
  have "create_student_view e r d \<noteq> Inl ValidationError"
    by (auto simp: create_student_view_def Student_save_no_ValidationError
          split: if_splits sum.splits option.splits
          dest: Student_filter_user_Inl)
       (cases "user r", simp_all)
  then show ?thesis
    by (simp add: create_student_def login_required_def)
qed

lemma edit_student_no_ValidationError: "edit_student e r sid d \<noteq> Inl ValidationError"
  by (auto simp: edit_student_def Student_get_id_def Student_save_no_ValidationError
        split: if_splits sum.splits option.splits dest: get_one_Inl)

lemma future_date_fails_fields:
  assumes "data ''date_of_receipt'' = Some s" and "parse_date e s = Some dt"
    and "today e < dt"
  shows "validate_fields e (writable_fields StudentSerializer_fields) data = None"
proof -
  from assms have "serializer_field e ''date_of_receipt'' (data ''date_of_receipt'') = None"
    by (simp add: serializer_field_def serializer_date_of_receipt_def
          date_of_receipt_validators_def validate_future_date_def)
  then show ?thesis
    by (simp add: writable_fields_def StudentSerializer_fields_def split: option.splits)
qed

text \<open>
  Claim C4, as stated, has the validator applied at the storage layer on every create and
  update. \<open>save()\<close> runs no validator: the write of a Student dated 2024-07-01, a month
  after today, succeeds, although \<open>validate_future_date\<close> raises on that date.
\<close>

theorem validate_future_date_on_every_save_counterexample:
  "validate_future_date example_env (2024, 7, 1) = Inl ValidationError
   \<and> Student_save example_db 100 2 (Some ''New'') (Some ''Student'') (2024, 7, 1)
       = Inr (example_db\<lparr>Student_objects := [example_student,
                \<lparr>student_id = 100, student_user = 2, first_name = ''New'',
                 last_name = ''Student'', date_of_receipt = (2024, 7, 1)\<rparr>]\<rparr>)"
  by (simp add: validate_future_date_def Student_save_def example_env_def example_db_def
        example_student_def)

text \<open>
  Claim C4, amended. \<open>validate_future_date\<close> raises \<open>ValidationError\<close> exactly when the
  date is strictly after today, and accepts today itself. It is the declared validator
  of \<open>Student.date_of_receipt\<close>: the model validation of the field rejects exactly the
  future dates, and so does the REST create route, whose serializer runs the field's
  validators (400, nothing stored). \<open>save()\<close> runs no validator, and the page handlers
  \<open>create_student\<close> and \<open>edit_student\<close> do not call it: they never raise
  \<open>ValidationError\<close>, they make the same comparison themselves before \<open>save()\<close>. Once
  the submitted date is parsed, they answer with the future-date page exactly when the
  validator would raise, and every Student row they write carries a date the validator
  accepts.
\<close>

theorem validate_future_date_declared_and_repeated_inline:
  "(validate_future_date e dv = Inl ValidationError \<longleftrightarrow> today e < dv)
   \<and> (validate_future_date e dv = Inr () \<longleftrightarrow> dv \<le> today e)
   \<and> validate_future_date e (today e) = Inr ()
   \<and> validate_future_date \<in> set date_of_receipt_validators
   \<and> (Student_date_of_receipt_clean e s = Inl ValidationError \<longleftrightarrow> today e < date_of_receipt s)
   \<and> (has_permission r3 \<and> data ''date_of_receipt'' = Some str3 \<and> parse_date e str3 = Some dt3
        \<and> validate_future_date e dt3 = Inl ValidationError \<longrightarrow>
        StudentViewSet_create e r3 data d3 = Inr (BadRequest_400, d3))
   \<and> Student_save d i p fn ln dv \<noteq> Inl ValidationError
   \<and> create_student e r d \<noteq> Inl ValidationError
   \<and> edit_student e r2 sid d2 \<noteq> Inl ValidationError
   \<and> (req_method r = ''POST'' \<and> is_authenticated (user r)
        \<and> Student_filter_user d (user r) = Inr [] \<and> POST r ''date_of_receipt'' = Some str
        \<and> strptime e str = Some dt \<longrightarrow>
        (create_student e r d = Inr (Render ''create_student.html'' (Some ErrFutureDate), d)
         \<longleftrightarrow> validate_future_date e dt = Inl ValidationError))
   \<and> (req_method r2 = ''POST'' \<and> Student_get_id d2 sid = Inr st
        \<and> (user_eq (user r2) (student_user st) \<or> is_staff (user r2))
        \<and> POST r2 ''date_of_receipt'' = Some str2 \<and> strptime e str2 = Some dt2 \<longrightarrow>
        (edit_student e r2 sid d2 = Inr (Render ''edit_student.html'' (Some ErrFutureDate), d2)
         \<longleftrightarrow> validate_future_date e dt2 = Inl ValidationError))
   \<and> (create_student e r d = Inr (resp, d') \<longrightarrow>
        (\<forall>x \<in> set (Student_objects d') - set (Student_objects d).
           validate_future_date e (date_of_receipt x) = Inr ()))
   \<and> (edit_student e r2 sid d2 = Inr (resp2, d2') \<longrightarrow>
        (\<forall>x \<in> set (Student_objects d2') - set (Student_objects d2).
           validate_future_date e (date_of_receipt x) = Inr ()))"
proof -
  have a: "validate_future_date e dv = Inl ValidationError \<longleftrightarrow> today e < dv"
    by (simp add: validate_future_date_Inl)
  have a': "validate_future_date e dv = Inr () \<longleftrightarrow> dv \<le> today e"
    by (rule validate_future_date_Inr)
  have b: "validate_future_date e (today e) = Inr ()"
    by (simp add: validate_future_date_Inr)
  have c: "validate_future_date \<in> set date_of_receipt_validators"
    by (simp add: date_of_receipt_validators_def)
  have d: "Student_date_of_receipt_clean e s = Inl ValidationError
      \<longleftrightarrow> today e < date_of_receipt s"
    by (simp add: Student_date_of_receipt_clean_def date_of_receipt_validators_def
          validate_future_date_def)
  have rest: "StudentViewSet_create e r3 data d3 = Inr (BadRequest_400, d3)"
    if "has_permission r3" "data ''date_of_receipt'' = Some str3"
      "parse_date e str3 = Some dt3" "validate_future_date e dt3 = Inl ValidationError"
  proof -
    from that(4) have "today e < dt3"
      by (simp add: validate_future_date_Inl)
    with that(2,3)
    have "validate_fields e (writable_fields StudentSerializer_fields) data = None"
      by (rule future_date_fails_fields)
    with that(1) show ?thesis
      by (simp add: StudentViewSet_create_def)
  qed
  have ci: "create_student e r d = Inr (Render ''create_student.html'' (Some ErrFutureDate), d)
      \<longleftrightarrow> validate_future_date e dt = Inl ValidationError"
    if "req_method r = ''POST''" "is_authenticated (user r)"
      "Student_filter_user d (user r) = Inr []" "POST r ''date_of_receipt'' = Some str"
      "strptime e str = Some dt"
    using that
    by (auto simp: create_student_def login_required_def create_student_view_def
          validate_future_date_def split: sum.splits)
  have ei: "edit_student e r2 sid d2 = Inr (Render ''edit_student.html'' (Some ErrFutureDate), d2)
      \<longleftrightarrow> validate_future_date e dt2 = Inl ValidationError"
    if "req_method r2 = ''POST''" "Student_get_id d2 sid = Inr st"
      "user_eq (user r2) (student_user st) \<or> is_staff (user r2)"
      "POST r2 ''date_of_receipt'' = Some str2" "strptime e str2 = Some dt2"
    using that
    by (auto simp: edit_student_def validate_future_date_def split: sum.splits)
  have f: "validate_future_date e (date_of_receipt x) = Inr ()"
    if "create_student e r d = Inr (resp, d')"
      and "x \<in> set (Student_objects d') - set (Student_objects d)" for x
    using that create_student_rows [of e r d resp d' x]
    by (simp add: validate_future_date_Inr)
  have g: "validate_future_date e (date_of_receipt x) = Inr ()"
    if "edit_student e r2 sid d2 = Inr (resp2, d2')"
      and "x \<in> set (Student_objects d2') - set (Student_objects d2)" for x
    using that edit_student_rows [of e r2 sid d2 resp2 d2' x]
    by (simp add: validate_future_date_Inr)
  show ?thesis
    apply (intro conjI impI ballI)
                apply (rule a)
               apply (rule a')
              apply (rule b)
             apply (rule c)
            apply (rule d)
           apply (elim conjE, erule (3) rest)
          apply (rule Student_save_no_ValidationError)
         apply (rule create_student_no_ValidationError)
        apply (rule edit_student_no_ValidationError)
       apply (elim conjE, erule (4) ci)
      apply (elim conjE, erule (4) ei)
     apply (erule (1) f)
    apply (erule (1) g)
    done
qed

theorem validate_future_date_declared_and_repeated_inline_witness:
  "validate_future_date example_env (2024, 7, 1) = Inl ValidationError
   \<and> StudentViewSet_create example_env
        \<lparr>req_method = ''POST'', user = bob, POST = Map.empty\<rparr>
        (student_payload(''date_of_receipt'' \<mapsto> ''2024-07-01'')) example_db
       = Inr (BadRequest_400, example_db)
   \<and> create_student example_env
        \<lparr>req_method = ''POST'', user = bob, POST = student_form ''2024-07-01''\<rparr> example_db
       = Inr (Render ''create_student.html'' (Some ErrFutureDate), example_db)
   \<and> edit_student example_env
        \<lparr>req_method = ''POST'', user = alice, POST = student_form ''2024-07-01''\<rparr> 20 example_db
       = Inr (Render ''edit_student.html'' (Some ErrFutureDate), example_db)
   \<and> create_student example_env
        \<lparr>req_method = ''POST'', user = bob, POST = student_form ''2024-05-01''\<rparr> example_db
       = Inr (Redirect ''students'',
              example_db\<lparr>Student_objects := [example_student,
                \<lparr>student_id = 100, student_user = 2, first_name = ''New'',
                 last_name = ''Student'', date_of_receipt = (2024, 5, 1)\<rparr>]\<rparr>)
   \<and> validate_future_date example_env (2024, 5, 1) = Inr ()"
proof -
  let ?rest = "\<lparr>req_method = ''POST'', user = bob, POST = Map.empty\<rparr>"
  let ?data = "student_payload(''date_of_receipt'' \<mapsto> ''2024-07-01'')"
  let ?rb = "\<lparr>req_method = ''POST'', user = bob, POST = student_form ''2024-07-01''\<rparr>"
  let ?ra = "\<lparr>req_method = ''POST'', user = alice, POST = student_form ''2024-07-01''\<rparr>"
  let ?rok = "\<lparr>req_method = ''POST'', user = bob, POST = student_form ''2024-05-01''\<rparr>"
  let ?row = "\<lparr>student_id = 100, student_user = 2, first_name = ''New'',
                 last_name = ''Student'', date_of_receipt = (2024, 5, 1)\<rparr>"
  let ?db = "example_db\<lparr>Student_objects := [example_student, ?row]\<rparr>"
  note t = validate_future_date_declared_and_repeated_inline
    [where e = example_env and dv = "(2024, 7, 1)" and ?r3.0 = ?rest and data = ?data
       and ?str3.0 = "''2024-07-01''" and ?dt3.0 = "(2024, 7, 1)" and ?d3.0 = example_db
       and r = ?rb and d = example_db and str = "''2024-07-01''" and dt = "(2024, 7, 1)"
       and ?r2.0 = ?ra and ?d2.0 = example_db and sid = 20 and st = example_student
       and ?str2.0 = "''2024-07-01''" and ?dt2.0 = "(2024, 7, 1)"]
  note u = validate_future_date_declared_and_repeated_inline
    [where e = example_env and dv = "(2024, 5, 1)" and s = example_student and ?r3.0 = ?rest
       and data = ?data and ?str3.0 = "''2024-07-01''" and ?dt3.0 = "(2024, 7, 1)"
       and ?d3.0 = example_db and i = 100 and p = 2 and fn = None and ln = None
       and r = ?rok and d = example_db and str = "''2024-05-01''" and dt = "(2024, 5, 1)"
       and ?r2.0 = ?ra and ?d2.0 = example_db and sid = 20 and st = example_student
       and ?str2.0 = "''2024-07-01''" and ?dt2.0 = "(2024, 7, 1)"
       and resp = "Redirect ''students''" and d' = ?db
       and ?resp2.0 = "Redirect ''students''" and ?d2' = example_db]
  have fut: "today example_env < (2024, 7, 1)"
    by (simp add: example_env_def)
  with t have v: "validate_future_date example_env (2024, 7, 1) = Inl ValidationError"
    by blast
  have h3: "has_permission ?rest" "?data ''date_of_receipt'' = Some ''2024-07-01''"
    "parse_date example_env ''2024-07-01'' = Some (2024, 7, 1)"
    by (simp_all add: has_permission_def bob_def example_env_def example_parse_date_def)
  have hb: "req_method ?rb = ''POST''" "is_authenticated (user ?rb)"
    "Student_filter_user example_db (user ?rb) = Inr []"
    "POST ?rb ''date_of_receipt'' = Some ''2024-07-01''"
    "strptime example_env ''2024-07-01'' = Some (2024, 7, 1)"
    by (simp_all add: bob_def example_db_def example_student_def student_form_def
          example_env_def example_parse_date_def)
  have ha: "req_method ?ra = ''POST''" "Student_get_id example_db 20 = Inr example_student"
    "user_eq (user ?ra) (student_user example_student)"
    "POST ?ra ''date_of_receipt'' = Some ''2024-07-01''"
    by (simp_all add: alice_def example_db_def example_student_def student_form_def
          Student_get_id_def)
  from t v h3 have 1: "StudentViewSet_create example_env ?rest ?data example_db
      = Inr (BadRequest_400, example_db)"
    by blast
  from t v hb have 2: "create_student example_env ?rb example_db
      = Inr (Render ''create_student.html'' (Some ErrFutureDate), example_db)"
    by blast
  from t v ha hb(5) have 3: "edit_student example_env ?ra 20 example_db
      = Inr (Render ''edit_student.html'' (Some ErrFutureDate), example_db)"
    by blast
  have 4: "create_student example_env ?rok example_db = Inr (Redirect ''students'', ?db)"
    by (simp add: create_student_def login_required_def create_student_view_def
          Student_save_def example_env_def example_db_def example_student_def
          example_parse_date_def student_form_def bob_def)
  have new: "?row \<in> set (Student_objects ?db) - set (Student_objects example_db)"
    by (simp add: example_db_def example_student_def)
  from u 4 have written: "\<forall>x \<in> set (Student_objects ?db) - set (Student_objects example_db).
      validate_future_date example_env (date_of_receipt x) = Inr ()"
    by (elim conjE) (erule mp)
  from written new have "validate_future_date example_env (date_of_receipt ?row) = Inr ()"
    by (rule bspec)
  then have 5: "validate_future_date example_env (2024, 5, 1) = Inr ()"
    by simp
  show ?thesis
    by (intro conjI) (rule v, rule 1, rule 2, rule 3, rule 4, rule 5)
qed

end
